theory Spec2Isabelle
  imports Main
begin

section \<open>Go values shared by the adapters\<close>

text \<open>
  A Go \<open>*string\<close> is a \<open>string option\<close>: \<open>None\<close> is the nil pointer.
  \<open>aws.StringValue\<close> reads a pointer, giving the empty string for nil.
\<close>

definition StringValue :: "string option \<Rightarrow> string" where
  "StringValue p = (case p of None \<Rightarrow> [] | Some s \<Rightarrow> s)"

text \<open>
  A run-time panic of the Go program is a value of the model: a function that can panic
  returns \<open>panic + 'a\<close>, with \<open>Inl\<close> for the panic.
\<close>

datatype panic = NilPointerDereference | IndexOutOfRange | InterfaceConversion

text \<open>
  Go \<open>error\<close> values, by the classes the adapters tell apart. An AWS SDK error carries
  its code and its text; \<open>retry.NotFoundError\<close>, \<open>retry.TimeoutError\<close> and
  \<open>retry.UnexpectedStateError\<close> carry their \<open>LastError\<close> (the latter two also the text they
  print before it); \<open>ErrorString\<close> is an error made by \<open>errors.New\<close>.
\<close>

datatype error =
    AWSError string string
  | NotFoundError "error option"
  | EmptyResultError
  | TimeoutError string "error option"
  | UnexpectedStateError string "error option"
  | ErrorString string

fun Error :: "error \<Rightarrow> string" where
  "Error (AWSError code text) = text"
| "Error (NotFoundError le) = ''couldn't find resource''"
| "Error EmptyResultError = ''empty result''"
| "Error (TimeoutError text le) =
     (case le of None \<Rightarrow> text | Some e \<Rightarrow> text @ '': '' @ Error e)"
| "Error (UnexpectedStateError text le) =
     (case le of None \<Rightarrow> text | Some e \<Rightarrow> text @ '': '' @ Error e)"
| "Error (ErrorString text) = text"

text \<open>
  \<open>tfawserr.ErrCodeEquals(err, code)\<close>: some error in the chain of \<open>err\<close> (following
  \<open>Unwrap\<close>, which the three \<open>retry\<close> errors define as their \<open>LastError\<close>) is an AWS
  error with that code. A nil error has no code.
\<close>

fun errCode :: "error \<Rightarrow> string option" where
  "errCode (AWSError code text) = Some code"
| "errCode (NotFoundError le) = (case le of None \<Rightarrow> None | Some e \<Rightarrow> errCode e)"
| "errCode EmptyResultError = None"
| "errCode (TimeoutError text le) = (case le of None \<Rightarrow> None | Some e \<Rightarrow> errCode e)"
| "errCode (UnexpectedStateError text le) = (case le of None \<Rightarrow> None | Some e \<Rightarrow> errCode e)"
| "errCode (ErrorString text) = None"

definition ErrCodeEquals :: "error option \<Rightarrow> string \<Rightarrow> bool" where
  "ErrCodeEquals err code = (case err of None \<Rightarrow> False | Some e \<Rightarrow> errCode e = Some code)"

definition ErrCodeNotFoundException :: string where
  "ErrCodeNotFoundException = ''NotFoundException''"

text \<open>
  Modelled from the spec: \<open>tfresource.NotFound\<close> (package \<open>internal/tfresource\<close>, not
  under src/) recognises the "not found" class of errors: an error whose chain holds a
  \<open>retry.NotFoundError\<close>, or the empty-result error made by
  \<open>tfresource.NewEmptyResultError\<close>. A nil error is not "not found".
\<close>

fun isNotFound :: "error \<Rightarrow> bool" where
  "isNotFound (AWSError code text) = False"
| "isNotFound (NotFoundError le) = True"
| "isNotFound EmptyResultError = True"
| "isNotFound (TimeoutError text le) = (case le of None \<Rightarrow> False | Some e \<Rightarrow> isNotFound e)"
| "isNotFound (UnexpectedStateError text le) =
     (case le of None \<Rightarrow> False | Some e \<Rightarrow> isNotFound e)"
| "isNotFound (ErrorString text) = False"

definition NotFound :: "error option \<Rightarrow> bool" where
  "NotFound err = (case err of None \<Rightarrow> False | Some e \<Rightarrow> isNotFound e)"

text \<open>
  Modelled from the spec: \<open>tfresource.SetLastError\<close> (not under src/) fills the
  \<open>LastError\<close> of a timeout or unexpected-state error that has none yet, and leaves every
  other error as it is. The Go function mutates the error in place; the model returns it.
\<close>

fun SetLastError :: "error option \<Rightarrow> error \<Rightarrow> error option" where
  "SetLastError (Some (TimeoutError text None)) lastErr = Some (TimeoutError text (Some lastErr))"
| "SetLastError (Some (UnexpectedStateError text None)) lastErr =
     Some (UnexpectedStateError text (Some lastErr))"
| "SetLastError err lastErr = err"

section \<open>Route 53: trimming the trailing period of a name\<close>

text \<open>
  The argument of \<open>TrimTrailingPeriod\<close> is an \<open>interface{}\<close>. The test table of
  \<open>TestTrimTrailingPeriod\<close> passes strings, string pointers (nil among them), an integer
  and the nil interface.
\<close>

datatype iface = IString string | IStringPtr "string option" | IInt int | INil

text \<open>\<open>strings.TrimSuffix(s, ".")\<close>: one trailing period is removed, if there is one.\<close>

definition TrimSuffixPeriod :: "string \<Rightarrow> string" where
  "TrimSuffixPeriod s = (if s \<noteq> [] \<and> last s = CHR ''.'' then butlast s else s)"

text \<open>
  Modelled from the spec: \<open>tfroute53.TrimTrailingPeriod\<close> is not under src/ (only its
  test \<open>TestTrimTrailingPeriod\<close> is). A string, or the string a non-nil pointer points
  to, loses one trailing period, except that the one-character string "." is returned as
  it is; a nil pointer, the nil interface and a value of any other type give the empty
  string.
\<close>

fun TrimTrailingPeriod :: "iface \<Rightarrow> string" where
  "TrimTrailingPeriod (IString s) = (if s = ''.'' then s else TrimSuffixPeriod s)"
| "TrimTrailingPeriod (IStringPtr (Some s)) = (if s = ''.'' then s else TrimSuffixPeriod s)"
| "TrimTrailingPeriod (IStringPtr None) = []"
| "TrimTrailingPeriod (IInt n) = []"
| "TrimTrailingPeriod INil = []"

text \<open>The table of \<open>TestTrimTrailingPeriod\<close>: inputs and expected outputs.\<close>

definition TestTrimTrailingPeriod_cases :: "(iface \<times> string) list" where
  "TestTrimTrailingPeriod_cases =
    [(IString ''example.com'', ''example.com''),
     (IString ''example.com.'', ''example.com''),
     (IString ''www.example.com.'', ''www.example.com''),
     (IString [], []),
     (IString ''.'', ''.''),
     (IStringPtr (Some ''example.com''), ''example.com''),
     (IStringPtr (Some ''example.com.''), ''example.com''),
     (IStringPtr None, []),
     (IInt 42, []),
     (INil, [])]"

section \<open>API Gateway: mutual TLS authentication\<close>

text \<open>
  \<open>apigateway.MutualTlsAuthentication\<close> is what the API returns,
  \<open>apigateway.MutualTlsAuthenticationInput\<close> what a create request carries.
\<close>

record MutualTlsAuthentication =
  TruststoreUri :: "string option"
  TruststoreVersion :: "string option"
  TruststoreWarnings :: "string list"

record MutualTlsAuthenticationInput =
  InputTruststoreUri :: "string option"
  InputTruststoreVersion :: "string option"

text \<open>
  The \<open>map[string]interface{}\<close> of a \<open>mutual_tls_authentication\<close> block, by the two
  keys the code reads: \<open>None\<close> is a key that is absent or does not hold a string. An
  element of the attribute's list is \<open>None\<close> when it is the nil interface.
\<close>

record tfMutualTLS =
  truststore_uri :: "string option"
  truststore_version :: "string option"

fun expandMutualTLSAuthentication :: "tfMutualTLS option list \<Rightarrow> MutualTlsAuthenticationInput option" where
  "expandMutualTLSAuthentication [] = None"
| "expandMutualTLSAuthentication (None # rest) = None"
| "expandMutualTLSAuthentication (Some tfMap # rest) =
     Some \<lparr>InputTruststoreUri =
             (case truststore_uri tfMap of
                Some v \<Rightarrow> (if v \<noteq> [] then Some v else None)
              | None \<Rightarrow> None),
           InputTruststoreVersion =
             (case truststore_version tfMap of
                Some v \<Rightarrow> (if v \<noteq> [] then Some v else None)
              | None \<Rightarrow> None)\<rparr>"

fun flattenMutualTLSAuthentication :: "MutualTlsAuthentication option \<Rightarrow> tfMutualTLS option list" where
  "flattenMutualTLSAuthentication None = []"
| "flattenMutualTLSAuthentication (Some apiObject) =
     [Some \<lparr>truststore_uri =
              (case TruststoreUri apiObject of None \<Rightarrow> None | Some v \<Rightarrow> Some (StringValue (Some v))),
            truststore_version =
              (case TruststoreVersion apiObject of None \<Rightarrow> None | Some v \<Rightarrow> Some (StringValue (Some v)))\<rparr>]"

section \<open>API Gateway: the domain name resource\<close>

subsection \<open>API objects\<close>

text \<open>
  A \<open>time.Time\<close> is kept by the text \<open>Format(time.RFC3339)\<close> prints for it; a
  \<open>time.Duration\<close> is its number of nanoseconds.
\<close>

datatype Time = Time string

fun FormatRFC3339 :: "Time \<Rightarrow> string" where
  "FormatRFC3339 (Time text) = text"

type_synonym Duration = int

definition Second :: Duration where
  "Second = 1000000000"

definition Minute :: Duration where
  "Minute = 60 * Second"

type_synonym Tags = "(string \<times> string) list"

record EndpointConfiguration =
  Types :: "string list"

record DomainName =
  CertificateArn :: "string option"
  CertificateName :: "string option"
  CertificateUploadDate :: "Time option"
  DistributionDomainName :: "string option"
  DistributionHostedZoneId :: "string option"
  DomainName :: "string option"
  DomainNameStatus :: "string option"
  DomainNameStatusMessage :: "string option"
  EndpointConfiguration :: "EndpointConfiguration option"
  MutualTlsAuthentication :: "MutualTlsAuthentication option"
  OwnershipVerificationCertificateArn :: "string option"
  RegionalCertificateArn :: "string option"
  RegionalCertificateName :: "string option"
  RegionalDomainName :: "string option"
  RegionalHostedZoneId :: "string option"
  SecurityPolicy :: "string option"
  Tags :: Tags

record CreateDomainNameInput =
  InputDomainName :: "string option"
  InputMutualTlsAuthentication :: "MutualTlsAuthenticationInput option"
  InputTags :: Tags
  InputCertificateArn :: "string option"
  InputCertificateBody :: "string option"
  InputCertificateChain :: "string option"
  InputCertificateName :: "string option"
  InputCertificatePrivateKey :: "string option"
  InputEndpointConfiguration :: "EndpointConfiguration option"
  InputOwnershipVerificationCertificateArn :: "string option"
  InputRegionalCertificateArn :: "string option"
  InputRegionalCertificateName :: "string option"
  InputSecurityPolicy :: "string option"

record PatchOperation =
  Op :: "string option"
  Path :: "string option"
  Value :: "string option"

record UpdateDomainNameInput =
  UpdateDomainName :: "string option"
  PatchOperations :: "PatchOperation list"

definition OpReplace :: string where
  "OpReplace = ''replace''"

definition DomainNameStatusUpdating :: string where
  "DomainNameStatusUpdating = ''UPDATING''"

definition DomainNameStatusAvailable :: string where
  "DomainNameStatusAvailable = ''AVAILABLE''"

text \<open>
  The connection, over a remote service with states of type \<open>'w\<close>: each call takes the
  state of the service and returns the Go pair (output, error) with the state after the
  call. The outputs of the update and delete calls are never read by the resource.
\<close>

record 'w APIGateway =
  CreateDomainNameWithContext ::
    "CreateDomainNameInput \<Rightarrow> 'w \<Rightarrow> (DomainName option \<times> error option) \<times> 'w"
  GetDomainNameWithContext ::
    "string \<Rightarrow> 'w \<Rightarrow> (DomainName option \<times> error option) \<times> 'w"
  UpdateDomainNameWithContext ::
    "UpdateDomainNameInput \<Rightarrow> 'w \<Rightarrow> (DomainName option \<times> error option) \<times> 'w"
  DeleteDomainNameWithContext ::
    "string \<Rightarrow> 'w \<Rightarrow> error option \<times> 'w"

text \<open>
  \<open>conns.AWSClient\<close> is not under src/: the values the resource reads from it are
  fields, the value of \<open>CloudFrontDistributionHostedZoneID()\<close> among them.
\<close>

record 'w AWSClient =
  Partition :: string
  Region :: string
  CloudFrontDistributionHostedZoneID :: string
  APIGatewayConn :: "'w APIGateway"

subsection \<open>Diagnostics\<close>

datatype Severity = SeverityError | SeverityWarning

record Diagnostic =
  Severity :: Severity
  Summary :: string

type_synonym Diagnostics = "Diagnostic list"

text \<open>
  Modelled from the spec: \<open>sdkdiag.AppendErrorf\<close> (package \<open>internal/errs/sdkdiag\<close>, not
  under src/) appends one error diagnostic whose summary is the formatted message. The
  caller passes the message with the format already applied.
\<close>

definition AppendErrorf :: "Diagnostics \<Rightarrow> string \<Rightarrow> Diagnostics" where
  "AppendErrorf diags message = diags @ [\<lparr>Severity = SeverityError, Summary = message\<rparr>]"

subsection \<open>The resource's attributes\<close>

text \<open>
  The \<open>map[string]interface{}\<close> of an \<open>endpoint_configuration\<close> block holds the one
  key of its schema.
\<close>

record tfEndpointConfiguration =
  types :: "string list"


fun flattenEndpointConfiguration :: "EndpointConfiguration option \<Rightarrow> tfEndpointConfiguration list" where
  "flattenEndpointConfiguration None = []"
| "flattenEndpointConfiguration (Some endpointConfiguration) =
     [\<lparr>types = Types endpointConfiguration\<rparr>]"

text \<open>The attributes of the schema of \<open>ResourceDomainName\<close>, each with its type.\<close>

record attrs =
  arn :: string
  certificate_arn :: string
  certificate_body :: string
  certificate_chain :: string
  certificate_name :: string
  certificate_private_key :: string
  certificate_upload_date :: string
  cloudfront_domain_name :: string
  cloudfront_zone_id :: string
  domain_name :: string
  endpoint_configuration :: "tfEndpointConfiguration list"
  mutual_tls_authentication :: "tfMutualTLS option list"
  ownership_verification_certificate_arn :: string
  regional_certificate_arn :: string
  regional_certificate_name :: string
  regional_domain_name :: string
  regional_zone_id :: string
  security_policy :: string
  tags :: Tags
  tags_all :: Tags

text \<open>
  \<open>schema.ResourceData\<close>: the id, the new-resource mark, the attributes of the prior
  state (\<open>old\<close>) and the current ones (\<open>new\<close>), which \<open>d.Get\<close> reads and \<open>d.Set\<close>
  writes. An attribute is named by its selector. \<open>d.HasChange\<close> compares the two values
  of an attribute; \<open>d.GetOk\<close> also says whether the value differs from the zero value
  of its type.
\<close>

record ResourceData =
  Id :: string
  IsNewResource :: bool
  old :: attrs
  new :: attrs

definition SetId :: "string \<Rightarrow> ResourceData \<Rightarrow> ResourceData" where
  "SetId v d = d\<lparr>Id := v\<rparr>"

definition Get :: "ResourceData \<Rightarrow> (attrs \<Rightarrow> 'a) \<Rightarrow> 'a" where
  "Get d key = key (new d)"

definition GetOk :: "ResourceData \<Rightarrow> (attrs \<Rightarrow> 'a list) \<Rightarrow> 'a list \<times> bool" where
  "GetOk d key = (key (new d), key (new d) \<noteq> [])"

definition HasChange :: "ResourceData \<Rightarrow> (attrs \<Rightarrow> 'a) \<Rightarrow> bool" where
  "HasChange d key = (key (old d) \<noteq> key (new d))"

text \<open>
  The nested keys \<open>endpoint_configuration.0.types\<close>,
  \<open>mutual_tls_authentication.0.truststore_uri\<close> and
  \<open>mutual_tls_authentication.0.truststore_version\<close>: reading below an element that is
  not there gives the zero value.
\<close>

definition endpoint_configuration_0_types :: "attrs \<Rightarrow> string list" where
  "endpoint_configuration_0_types a =
     (case endpoint_configuration a of [] \<Rightarrow> [] | m # rest \<Rightarrow> types m)"

definition mutual_tls_authentication_0_truststore_uri :: "attrs \<Rightarrow> string" where
  "mutual_tls_authentication_0_truststore_uri a =
     (case mutual_tls_authentication a of
        Some tfMap # rest \<Rightarrow> StringValue (truststore_uri tfMap)
      | _ \<Rightarrow> [])"

definition mutual_tls_authentication_0_truststore_version :: "attrs \<Rightarrow> string" where
  "mutual_tls_authentication_0_truststore_version a =
     (case mutual_tls_authentication a of
        Some tfMap # rest \<Rightarrow> StringValue (truststore_version tfMap)
      | _ \<Rightarrow> [])"

text \<open>
  \<open>d.HasChangesExcept("tags", "tags_all")\<close>: some attribute of the schema other than
  the two has changed.
\<close>

definition HasChangesExcept_tags_tags_all :: "ResourceData \<Rightarrow> bool" where
  "HasChangesExcept_tags_tags_all d =
     (HasChange d arn \<or> HasChange d certificate_arn \<or> HasChange d certificate_body \<or>
      HasChange d certificate_chain \<or> HasChange d certificate_name \<or>
      HasChange d certificate_private_key \<or> HasChange d certificate_upload_date \<or>
      HasChange d cloudfront_domain_name \<or> HasChange d cloudfront_zone_id \<or>
      HasChange d domain_name \<or> HasChange d endpoint_configuration \<or>
      HasChange d mutual_tls_authentication \<or>
      HasChange d ownership_verification_certificate_arn \<or>
      HasChange d regional_certificate_arn \<or> HasChange d regional_certificate_name \<or>
      HasChange d regional_domain_name \<or> HasChange d regional_zone_id \<or>
      HasChange d security_policy)"

text \<open>
  What one call of a resource function works on: the tags the context carries in
  (\<open>getTagsIn\<close>) and out (\<open>setTagsOut\<close>), the resource data \<open>d\<close> and the state of the
  remote service.
\<close>

record 'w call =
  tagsIn :: Tags
  tagsOut :: "Tags option"
  rd :: ResourceData
  remote :: 'w

subsection \<open>Finding a domain name, and its status\<close>

text \<open>
  \<open>FindDomainName\<close> returns either an error with a nil object, or a non-nil object
  with a nil error: the result is a sum, \<open>Inl\<close> the error.
\<close>

definition FindDomainName :: "'w APIGateway \<Rightarrow> string \<Rightarrow> 'w \<Rightarrow> (error + DomainName) \<times> 'w" where
  "FindDomainName conn domainName w =
     (let ((output, err), w') = GetDomainNameWithContext conn domainName w
      in if ErrCodeEquals err ErrCodeNotFoundException then (Inl (NotFoundError err), w')
         else case err of
                Some e \<Rightarrow> (Inl e, w')
              | None \<Rightarrow>
                  (case output of
                     None \<Rightarrow> (Inl EmptyResultError, w')
                   | Some out \<Rightarrow> (Inr out, w')))"

text \<open>
  The refresh function of the poller returns the Go triple (result, state, error); the
  result is an \<open>interface{}\<close> that holds a domain name or is nil.
\<close>

type_synonym 'w StateRefreshFunc = "'w \<Rightarrow> (DomainName option \<times> string \<times> error option) \<times> 'w"

definition statusDomainName :: "'w APIGateway \<Rightarrow> string \<Rightarrow> 'w StateRefreshFunc" where
  "statusDomainName conn domainName w =
     (case FindDomainName conn domainName w of
        (Inl err, w') \<Rightarrow>
          if NotFound (Some err) then ((None, [], None), w')
          else ((None, [], Some err), w')
      | (Inr output, w') \<Rightarrow>
          ((Some output, StringValue (DomainNameStatus output), None), w'))"

subsection \<open>Waiting for an update\<close>

text \<open>
  \<open>retry.StateChangeConf\<close>, with the fields the resource sets. Its method
  \<open>WaitForStateContext\<close> belongs to the plugin SDK, runs on the wall clock and is not
  under src/: it is a parameter of the functions that wait, a function from the
  configuration and the state of the remote service to the Go pair (result, error) and
  the state after the wait.
\<close>

record 'w StateChangeConf =
  Pending :: "string list"
  Target :: "string list"
  Refresh :: "'w StateRefreshFunc"
  Timeout :: Duration
  Delay :: Duration
  MinTimeout :: Duration

type_synonym 'w WaitForState =
  "'w StateChangeConf \<Rightarrow> 'w \<Rightarrow> (DomainName option \<times> error option) \<times> 'w"

definition domainNameUpdatedStateConf :: "'w APIGateway \<Rightarrow> string \<Rightarrow> 'w StateChangeConf" where
  "domainNameUpdatedStateConf conn domainName =
     (let timeout = 15 * Minute
      in \<lparr>Pending = [DomainNameStatusUpdating],
          Target = [DomainNameStatusAvailable],
          Refresh = statusDomainName conn domainName,
          Timeout = timeout,
          Delay = 1 * Minute,
          MinTimeout = 10 * Second\<rparr>)"

definition waitDomainNameUpdated ::
  "'w WaitForState \<Rightarrow> 'w APIGateway \<Rightarrow> string \<Rightarrow> 'w \<Rightarrow> (DomainName option \<times> error option) \<times> 'w" where
  "waitDomainNameUpdated WaitForStateContext conn domainName w =
     (let stateConf = domainNameUpdatedStateConf conn domainName;
          ((outputRaw, err), w') = WaitForStateContext stateConf w
      in case outputRaw of
           Some output \<Rightarrow>
             ((Some output,
               SetLastError err (ErrorString (StringValue (DomainNameStatusMessage output)))), w')
         | None \<Rightarrow> ((None, err), w'))"

subsection \<open>Read\<close>

text \<open>\<open>arn.ARN{...}.String()\<close>: the sections of an ARN, joined by colons.\<close>

definition ARN_String :: "string \<Rightarrow> string \<Rightarrow> string \<Rightarrow> string \<Rightarrow> string \<Rightarrow> string" where
  "ARN_String part service region accountID resource =
     ''arn:'' @ part @ '':'' @ service @ '':'' @ region @ '':'' @ accountID @ '':'' @ resource"

text \<open>
  \<open>d.Set\<close> on the two block attributes, and what \<open>d.Get\<close> then reads. The writer of
  the plugin SDK stores the keys the map of an element holds; the reader fills every key
  of the block's schema with the stored value, or with the zero value of its type when
  the key was not stored, and reads an element none of whose keys was stored as nil. So a
  \<open>truststore_version\<close> that flattening left out of the map reads back as the empty
  string. \<open>d.Set\<close> returns an error for a value that does not fit the type of the
  attribute's schema; the values of this model have that type, so both calls return a nil
  error, and \<open>resourceDomainNameRead\<close> keeps the branches that return it.
\<close>

definition readMutualTLSElement :: "tfMutualTLS option \<Rightarrow> tfMutualTLS option" where
  "readMutualTLSElement element =
     (case element of
        None \<Rightarrow> None
      | Some tfMap \<Rightarrow>
          if truststore_uri tfMap = None \<and> truststore_version tfMap = None then None
          else Some \<lparr>truststore_uri = Some (StringValue (truststore_uri tfMap)),
                     truststore_version = Some (StringValue (truststore_version tfMap))\<rparr>)"

definition Set_endpoint_configuration ::
  "tfEndpointConfiguration list \<Rightarrow> ResourceData \<Rightarrow> error option \<times> ResourceData" where
  "Set_endpoint_configuration v d = (None, d\<lparr>new := (new d)\<lparr>endpoint_configuration := v\<rparr>\<rparr>)"

definition Set_mutual_tls_authentication ::
  "tfMutualTLS option list \<Rightarrow> ResourceData \<Rightarrow> error option \<times> ResourceData" where
  "Set_mutual_tls_authentication v d =
     (None, d\<lparr>new := (new d)\<lparr>mutual_tls_authentication := map readMutualTLSElement v\<rparr>\<rparr>)"

text \<open>
  In \<open>resourceDomainNameRead\<close> the calls of \<open>d.Set\<close> follow the order of the source:
  seven attributes, the two block attributes with their error returns, six attributes,
  then \<open>setTagsOut\<close>. A \<open>d.Set\<close> of a nil string pointer stores the empty string.
\<close>

definition resourceDomainNameRead :: "'w AWSClient \<Rightarrow> 'w call \<Rightarrow> Diagnostics \<times> 'w call" where
  "resourceDomainNameRead meta s =
     (let diags = [];
          conn = APIGatewayConn meta;
          d = rd s;
          (found, w') = FindDomainName conn (Id d) (remote s);
          s' = s\<lparr>remote := w'\<rparr>
      in case found of
           Inl err \<Rightarrow>
             if \<not> IsNewResource d \<and> NotFound (Some err)
             then (diags, s'\<lparr>rd := SetId [] d\<rparr>)
             else (AppendErrorf diags
                     (''reading API Gateway Domain Name ('' @ Id d @ ''): '' @ Error err), s')
         | Inr domainName \<Rightarrow>
             (let d = d\<lparr>new := (new d)
                        \<lparr>arn := ARN_String (Partition meta) ''apigateway'' (Region meta) []
                                  (''/domainnames/'' @ Id d),
                         certificate_arn := StringValue (CertificateArn domainName),
                         certificate_name := StringValue (CertificateName domainName),
                         certificate_upload_date :=
                           (case CertificateUploadDate domainName of
                              Some t \<Rightarrow> FormatRFC3339 t
                            | None \<Rightarrow> []),
                         cloudfront_domain_name :=
                           StringValue (DistributionDomainName domainName),
                         cloudfront_zone_id := CloudFrontDistributionHostedZoneID meta,
                         domain_name := StringValue (DomainName domainName)\<rparr>\<rparr>
              in case Set_endpoint_configuration
                        (flattenEndpointConfiguration (EndpointConfiguration domainName)) d of
                   (Some err, d) \<Rightarrow>
                     (AppendErrorf diags (''setting endpoint_configuration: '' @ Error err),
                      s'\<lparr>rd := d\<rparr>)
                 | (None, d) \<Rightarrow>
                     (case Set_mutual_tls_authentication
                             (flattenMutualTLSAuthentication (MutualTlsAuthentication domainName))
                             d of
                        (Some err, d) \<Rightarrow>
                          (AppendErrorf diags
                             (''setting mutual_tls_authentication: '' @ Error err),
                           s'\<lparr>rd := d\<rparr>)
                      | (None, d) \<Rightarrow>
                          (diags,
                           s'\<lparr>rd := d\<lparr>new := (new d)
                                      \<lparr>ownership_verification_certificate_arn :=
                                         StringValue
                                           (OwnershipVerificationCertificateArn domainName),
                                       regional_certificate_arn :=
                                         StringValue (RegionalCertificateArn domainName),
                                       regional_certificate_name :=
                                         StringValue (RegionalCertificateName domainName),
                                       regional_domain_name :=
                                         StringValue (RegionalDomainName domainName),
                                       regional_zone_id :=
                                         StringValue (RegionalHostedZoneId domainName),
                                       security_policy :=
                                         StringValue (SecurityPolicy domainName)\<rparr>\<rparr>,
                              tagsOut := Some (Tags domainName)\<rparr>))))"

subsection \<open>Create\<close>




subsection \<open>Delete\<close>

definition resourceDomainNameDelete :: "'w AWSClient \<Rightarrow> 'w call \<Rightarrow> Diagnostics \<times> 'w call" where
  "resourceDomainNameDelete meta s =
     (let diags = [];
          conn = APIGatewayConn meta;
          d = rd s;
          (err, w') = DeleteDomainNameWithContext conn (Id d) (remote s);
          s' = s\<lparr>remote := w'\<rparr>
      in if ErrCodeEquals err ErrCodeNotFoundException then (diags, s')
         else case err of
                Some e \<Rightarrow>
                  (AppendErrorf diags
                     (''deleting API Gateway Domain Name ('' @ Id d @ ''): '' @ Error e), s')
              | None \<Rightarrow> (diags, s'))"

subsection \<open>Update\<close>

definition replaceOperation :: "string \<Rightarrow> string \<Rightarrow> PatchOperation" where
  "replaceOperation path v = \<lparr>Op = Some OpReplace, Path = Some path, Value = Some v\<rparr>"

text \<open>
  The operations \<open>resourceDomainNameUpdate\<close> appends for an attribute that is a plain
  string.
\<close>

definition stringOperations :: "ResourceData \<Rightarrow> (attrs \<Rightarrow> string) \<Rightarrow> string \<Rightarrow> PatchOperation list" where
  "stringOperations d key path =
     (if HasChange d key then [replaceOperation path (Get d key)] else [])"

text \<open>
  The block for \<open>endpoint_configuration.0.types\<close>. Nothing is appended when the
  configuration is being removed. Reading element 0 of an empty \<open>types\<close> list is an
  index out of range.
\<close>

definition endpointConfigurationOperations :: "ResourceData \<Rightarrow> panic + PatchOperation list" where
  "endpointConfigurationOperations d =
     (if HasChange d endpoint_configuration_0_types
      then (case GetOk d endpoint_configuration of
              (v, ok) \<Rightarrow>
                if ok \<and> length v > 0
                then (case v of
                        [] \<Rightarrow> Inl IndexOutOfRange
                      | m # rest \<Rightarrow>
                          (case types m of
                             [] \<Rightarrow> Inl IndexOutOfRange
                           | t # ts \<Rightarrow>
                               Inr [replaceOperation ''/endpointConfiguration/types/0'' t]))
                else Inr [])
      else Inr [])"

text \<open>
  The block for \<open>mutual_tls_authentication\<close>. With a block in the configuration, each
  of its two keys that changed is replaced; \<open>tfMap[key].(string)\<close> panics on a key that
  holds no string. Without one, the truststore URI is replaced by the empty string.
\<close>

definition mutualTLSKeyOperations ::
  "ResourceData \<Rightarrow> (attrs \<Rightarrow> string) \<Rightarrow> string option \<Rightarrow> string \<Rightarrow> panic + PatchOperation list" where
  "mutualTLSKeyOperations d key held path =
     (if HasChange d key
      then (case held of
              None \<Rightarrow> Inl InterfaceConversion
            | Some v \<Rightarrow> Inr [replaceOperation path v])
      else Inr [])"

definition mutualTLSAuthenticationOperations :: "ResourceData \<Rightarrow> panic + PatchOperation list" where
  "mutualTLSAuthenticationOperations d =
     (if HasChange d mutual_tls_authentication
      then (case GetOk d mutual_tls_authentication of
              (Some tfMap # rest, ok) \<Rightarrow>
                (case mutualTLSKeyOperations d mutual_tls_authentication_0_truststore_uri
                        (truststore_uri tfMap) ''/mutualTlsAuthentication/truststoreUri'' of
                   Inl p \<Rightarrow> Inl p
                 | Inr uriOps \<Rightarrow>
                     (case mutualTLSKeyOperations d mutual_tls_authentication_0_truststore_version
                             (truststore_version tfMap)
                             ''/mutualTlsAuthentication/truststoreVersion'' of
                        Inl p \<Rightarrow> Inl p
                      | Inr versionOps \<Rightarrow> Inr (uriOps @ versionOps)))
            | (v, ok) \<Rightarrow>
                Inr [replaceOperation ''/mutualTlsAuthentication/truststoreUri'' []])
      else Inr [])"

text \<open>
  The list \<open>operations\<close> that \<open>resourceDomainNameUpdate\<close> builds inside
  \<open>if d.HasChangesExcept("tags", "tags_all")\<close>, block after block in the order of the
  source; the first panic ends it.
\<close>

definition domainNamePatchOperations :: "ResourceData \<Rightarrow> panic + PatchOperation list" where
  "domainNamePatchOperations d =
     (let operations = [];
          operations = operations @ stringOperations d certificate_arn ''/certificateArn'';
          operations = operations @ stringOperations d certificate_name ''/certificateName''
      in case endpointConfigurationOperations d of
           Inl p \<Rightarrow> Inl p
         | Inr endpointOps \<Rightarrow>
             (case mutualTLSAuthenticationOperations d of
                Inl p \<Rightarrow> Inl p
              | Inr mutualTLSOps \<Rightarrow>
                  Inr (operations @ endpointOps @ mutualTLSOps
                       @ stringOperations d regional_certificate_arn ''/regionalCertificateArn''
                       @ stringOperations d regional_certificate_name ''/regionalCertificateName''
                       @ stringOperations d security_policy ''/securityPolicy'')))"

text \<open>
  What \<open>resourceDomainNameUpdate\<close> does with the list once it is built: the one
  \<open>UpdateDomainName\<close> call, the wait for the update and the read, each step only when
  the one before it returned no error.
\<close>

definition applyPatchOperations ::
  "'w WaitForState \<Rightarrow> 'w AWSClient \<Rightarrow> 'w call \<Rightarrow> PatchOperation list \<Rightarrow> Diagnostics \<times> 'w call" where
  "applyPatchOperations WaitForStateContext meta s operations =
     (let diags = [];
          conn = APIGatewayConn meta;
          d = rd s
      in case UpdateDomainNameWithContext conn
                \<lparr>UpdateDomainName = Some (Id d), PatchOperations = operations\<rparr> (remote s) of
           ((output, Some e), w1) \<Rightarrow>
             (AppendErrorf diags
                (''updating API Gateway Domain Name ('' @ Id d @ ''): '' @ Error e),
              s\<lparr>remote := w1\<rparr>)
         | ((output, None), w1) \<Rightarrow>
             (case waitDomainNameUpdated WaitForStateContext conn (Id d) w1 of
                ((waited, Some e), w2) \<Rightarrow>
                  (AppendErrorf diags
                     (''waiting for API Gateway Domain Name ('' @ Id d @ '') update: '' @ Error e),
                   s\<lparr>remote := w2\<rparr>)
              | ((waited, None), w2) \<Rightarrow>
                  (case resourceDomainNameRead meta (s\<lparr>remote := w2\<rparr>) of
                     (readDiags, s') \<Rightarrow> (diags @ readDiags, s'))))"

definition resourceDomainNameUpdate ::
  "'w WaitForState \<Rightarrow> 'w AWSClient \<Rightarrow> 'w call \<Rightarrow> panic + (Diagnostics \<times> 'w call)" where
  "resourceDomainNameUpdate WaitForStateContext meta s =
     (let diags = [];
          d = rd s
      in if HasChangesExcept_tags_tags_all d
         then (case domainNamePatchOperations d of
                 Inl p \<Rightarrow> Inl p
               | Inr operations \<Rightarrow> Inr (applyPatchOperations WaitForStateContext meta s operations))
         else (case resourceDomainNameRead meta s of
                 (readDiags, s') \<Rightarrow> Inr (diags @ readDiags, s')))"

text \<open>The operations of a list that patch a given path.\<close>

definition operationsAt :: "string \<Rightarrow> PatchOperation list \<Rightarrow> PatchOperation list" where
  "operationsAt path operations = filter (\<lambda>operation. Path operation = Some path) operations"

subsection \<open>A recording service, for closed examples\<close>

text \<open>
  A remote service that answers every call with a fixed response and keeps the list of
  the calls it received, and a poller that refreshes once.
\<close>

datatype apiCall =
    CreateDomainNameCall CreateDomainNameInput
  | GetDomainNameCall string
  | UpdateDomainNameCall UpdateDomainNameInput
  | DeleteDomainNameCall string

record service =
  calls :: "apiCall list"
  createResponse :: "DomainName option \<times> error option"
  getResponse :: "DomainName option \<times> error option"
  updateResponse :: "DomainName option \<times> error option"
  deleteResponse :: "error option"

definition recordingConn :: "service APIGateway" where
  "recordingConn =
     \<lparr>CreateDomainNameWithContext =
        (\<lambda>input w. (createResponse w, w\<lparr>calls := calls w @ [CreateDomainNameCall input]\<rparr>)),
      GetDomainNameWithContext =
        (\<lambda>name w. (getResponse w, w\<lparr>calls := calls w @ [GetDomainNameCall name]\<rparr>)),
      UpdateDomainNameWithContext =
        (\<lambda>input w. (updateResponse w, w\<lparr>calls := calls w @ [UpdateDomainNameCall input]\<rparr>)),
      DeleteDomainNameWithContext =
        (\<lambda>name w. (deleteResponse w, w\<lparr>calls := calls w @ [DeleteDomainNameCall name]\<rparr>))\<rparr>"

definition recordingClient :: "service AWSClient" where
  "recordingClient =
     \<lparr>Partition = ''aws'', Region = ''us-east-1'',
      CloudFrontDistributionHostedZoneID = ''Z2FDTNDATAQYW2'',
      APIGatewayConn = recordingConn\<rparr>"

definition refreshOnce :: "'w WaitForState" where
  "refreshOnce stateConf w =
     (case Refresh stateConf w of ((result, status, err), w') \<Rightarrow> ((result, err), w'))"

definition emptyAttrs :: attrs where
  "emptyAttrs =
     \<lparr>arn = [], certificate_arn = [], certificate_body = [], certificate_chain = [],
      certificate_name = [], certificate_private_key = [], certificate_upload_date = [],
      cloudfront_domain_name = [], cloudfront_zone_id = [], domain_name = [],
      endpoint_configuration = [], mutual_tls_authentication = [],
      ownership_verification_certificate_arn = [], regional_certificate_arn = [],
      regional_certificate_name = [], regional_domain_name = [], regional_zone_id = [],
      security_policy = [], tags = [], tags_all = []\<rparr>"

definition exampleDomainName :: DomainName where
  "exampleDomainName =
     \<lparr>CertificateArn = None, CertificateName = None, CertificateUploadDate = None,
      DistributionDomainName = None, DistributionHostedZoneId = None,
      DomainName = Some ''api.example.com'', DomainNameStatus = Some ''AVAILABLE'',
      DomainNameStatusMessage = None,
      EndpointConfiguration = Some \<lparr>Types = [''REGIONAL'']\<rparr>,
      MutualTlsAuthentication = None, OwnershipVerificationCertificateArn = None,
      RegionalCertificateArn = Some ''arn:aws:acm:us-east-1:123456789012:certificate/abc'',
      RegionalCertificateName = None,
      RegionalDomainName = Some ''d-abc.execute-api.us-east-1.amazonaws.com'',
      RegionalHostedZoneId = Some ''Z1UJRXOUMOOFQ8'', SecurityPolicy = Some ''TLS_1_2'',
      Tags = []\<rparr>"


definition exampleService :: service where
  "exampleService =
     \<lparr>calls = [], createResponse = (Some exampleDomainName, None),
      getResponse = (Some exampleDomainName, None),
      updateResponse = (Some exampleDomainName, None), deleteResponse = None\<rparr>"

definition exampleCall :: "service call" where
  "exampleCall =
     \<lparr>tagsIn = [], tagsOut = None,
      rd = \<lparr>Id = ''api.example.com'', IsNewResource = False,
             old = emptyAttrs\<lparr>domain_name := ''api.example.com''\<rparr>,
             new = emptyAttrs\<lparr>domain_name := ''api.example.com''\<rparr>\<rparr>,
      remote = exampleService\<rparr>"


section \<open>Route 53: creating random records in a zone\<close>

text \<open>\<open>fmt.Sprintf("%d", n)\<close>: the decimal digits of an integer.\<close>

definition digitChar :: "nat \<Rightarrow> char" where
  "digitChar n = ''0123456789'' ! (n mod 10)"

function showNat :: "nat \<Rightarrow> string" where
  "showNat n = (if n < 10 then [digitChar n] else showNat (n div 10) @ [digitChar n])"
  by pat_completeness auto
termination
  by (relation "measure (\<lambda>n. n)") auto

definition showInt :: "int \<Rightarrow> string" where
  "showInt i = (if i < 0 then CHR ''-'' # showNat (nat (- i)) else showNat (nat i))"

record HostedZone =
  ZoneId :: "string option"
  ZoneName :: "string option"

record GetHostedZoneOutput =
  HostedZone :: "HostedZone option"

record ResourceRecord =
  RecordValue :: "string option"

record ResourceRecordSet =
  RecordName :: "string option"
  RecordType :: "string option"
  ResourceRecords :: "ResourceRecord list"
  TTL :: "int option"

record Change =
  Action :: "string option"
  ResourceRecordSet :: "ResourceRecordSet option"

record ChangeBatch =
  Comment :: "string option"
  Changes :: "Change list"

record ChangeResourceRecordSetsInput =
  HostedZoneId :: "string option"
  ChangeBatch :: "ChangeBatch option"

record ChangeInfo =
  ChangeId :: "string option"

text \<open>
  The two helpers of the package that the test helper calls,
  \<open>tfroute53.ChangeResourceRecordSets\<close> and \<open>tfroute53.WaitForRecordSetToSync\<close>, are
  not under src/: they are parameters, functions on the state of the remote service.
\<close>

record 'w Route53 =
  ChangeResourceRecordSets ::
    "ChangeResourceRecordSetsInput \<Rightarrow> 'w \<Rightarrow> (ChangeInfo option \<times> error option) \<times> 'w"
  WaitForRecordSetToSync :: "string \<Rightarrow> 'w \<Rightarrow> error option \<times> 'w"

text \<open>
  Modelled from the spec: \<open>tfroute53.CleanChangeID\<close> is not under src/; by its test
  \<open>TestCleanChangeID\<close> it removes the prefix "/change/" and leaves every other
  identifier as it is.
\<close>

definition CleanChangeID :: "string \<Rightarrow> string" where
  "CleanChangeID ident = (if take 8 ident = ''/change/'' then drop 8 ident else ident)"

definition TestCleanChangeID_cases :: "(string \<times> string) list" where
  "TestCleanChangeID_cases =
     [(''/hostedzone/foo'', ''/hostedzone/foo''), (''/change/foo'', ''foo''), (''/bar'', ''/bar'')]"

text \<open>
  One pass of the loop body: the change for a random integer. \<open>*zone.HostedZone.Name\<close>
  dereferences two pointers.
\<close>

definition randomChange :: "GetHostedZoneOutput \<Rightarrow> int \<Rightarrow> panic + Change" where
  "randomChange zone r =
     (case HostedZone zone of
        None \<Rightarrow> Inl NilPointerDereference
      | Some hz \<Rightarrow>
          (case ZoneName hz of
             None \<Rightarrow> Inl NilPointerDereference
           | Some name \<Rightarrow>
               Inr \<lparr>Action = Some ''UPSERT'',
                    ResourceRecordSet =
                      Some \<lparr>RecordName = Some (showInt r @ ''-tf-acc-random.'' @ name),
                            RecordType = Some ''CNAME'',
                            ResourceRecords = [\<lparr>RecordValue = Some (''random.'' @ name)\<rparr>],
                            TTL = Some 30\<rparr>\<rparr>))"

text \<open>
  The loop \<open>for i := 0; i < recordsCount; i++\<close>: \<open>n\<close> passes are left, \<open>i\<close> is the
  loop counter and \<open>randInt i\<close> the value \<open>sdkacctest.RandInt()\<close> returns in pass \<open>i\<close>.
\<close>

fun appendRandomChanges ::
  "GetHostedZoneOutput \<Rightarrow> (nat \<Rightarrow> int) \<Rightarrow> nat \<Rightarrow> nat \<Rightarrow> Change list \<Rightarrow> panic + Change list" where
  "appendRandomChanges zone randInt 0 i changes = Inr changes"
| "appendRandomChanges zone randInt (Suc n) i changes =
     (case randomChange zone (randInt i) of
        Inl p \<Rightarrow> Inl p
      | Inr change \<Rightarrow> appendRandomChanges zone randInt n (Suc i) (changes @ [change]))"

definition testAccCreateRandomRecordsInZoneID ::
  "'w Route53 \<Rightarrow> (nat \<Rightarrow> int) \<Rightarrow> GetHostedZoneOutput \<Rightarrow> int \<Rightarrow> 'w \<Rightarrow> panic + (error option \<times> 'w)" where
  "testAccCreateRandomRecordsInZoneID conn randInt zone recordsCount w =
     (if recordsCount > 100
      then Inr (Some (ErrorString ''Route53 API only allows 100 record sets in a single batch''), w)
      else case appendRandomChanges zone randInt (nat recordsCount) 0 [] of
             Inl p \<Rightarrow> Inl p
           | Inr changes \<Rightarrow>
               (case HostedZone zone of
                  None \<Rightarrow> Inl NilPointerDereference
                | Some hz \<Rightarrow>
                    (let req = \<lparr>HostedZoneId = ZoneId hz,
                                ChangeBatch = Some \<lparr>Comment = Some ''Generated by Terraform'',
                                                    Changes = changes\<rparr>\<rparr>
                     in case ChangeResourceRecordSets conn req w of
                          ((changeInfo, Some err), w1) \<Rightarrow> Inr (Some err, w1)
                        | ((None, None), w1) \<Rightarrow> Inl NilPointerDereference
                        | ((Some info, None), w1) \<Rightarrow>
                            (case ChangeId info of
                               None \<Rightarrow> Inl NilPointerDereference
                             | Some ident \<Rightarrow>
                                 Inr (WaitForRecordSetToSync conn (CleanChangeID ident) w1)))))"

text \<open>
  A recording Route 53: it keeps the requests it received and answers with fixed
  responses.
\<close>

record zoneService =
  changeRequests :: "ChangeResourceRecordSetsInput list"
  changeResponse :: "ChangeInfo option \<times> error option"
  syncResponse :: "error option"

definition recordingRoute53 :: "zoneService Route53" where
  "recordingRoute53 =
     \<lparr>ChangeResourceRecordSets =
        (\<lambda>req w. (changeResponse w, w\<lparr>changeRequests := changeRequests w @ [req]\<rparr>)),
      WaitForRecordSetToSync = (\<lambda>ident w. (syncResponse w, w))\<rparr>"

definition exampleZone :: GetHostedZoneOutput where
  "exampleZone =
     \<lparr>HostedZone = Some \<lparr>ZoneId = Some ''/hostedzone/Z123'', ZoneName = Some ''example.com.''\<rparr>\<rparr>"

definition exampleZoneService :: zoneService where
  "exampleZoneService =
     \<lparr>changeRequests = [], changeResponse = (Some \<lparr>ChangeId = Some ''/change/C456''\<rparr>, None),
      syncResponse = None\<rparr>"

definition notFoundError :: error where
  "notFoundError =
     AWSError ''NotFoundException'' ''NotFoundException: Invalid domain name identifier specified''"

definition throttlingError :: error where
  "throttlingError =
     AWSError ''TooManyRequestsException'' ''TooManyRequestsException: Too Many Requests''"

text \<open>
  Resource data for closed examples: a resource about to be created; one whose
  certificate and security policy change; one whose \<open>endpoint_configuration\<close> is being
  removed; one whose \<open>mutual_tls_authentication\<close> is being removed; one whose tags
  alone change.
\<close>

definition exampleAttrs :: attrs where
  "exampleAttrs =
     emptyAttrs\<lparr>domain_name := ''api.example.com'',
                regional_certificate_arn := ''arn:aws:acm:us-east-1:123456789012:certificate/abc'',
                endpoint_configuration := [\<lparr>types = [''REGIONAL'']\<rparr>],
                mutual_tls_authentication :=
                  [Some \<lparr>truststore_uri = Some ''s3://bucket/ca.pem'',
                         truststore_version = Some ''v1''\<rparr>],
                security_policy := ''TLS_1_0''\<rparr>"


definition changedCertificateData :: ResourceData where
  "changedCertificateData =
     \<lparr>Id = ''api.example.com'', IsNewResource = False, old = exampleAttrs,
      new = exampleAttrs\<lparr>regional_certificate_arn :=
                             ''arn:aws:acm:us-east-1:123456789012:certificate/def'',
                           security_policy := ''TLS_1_2''\<rparr>\<rparr>"

definition removedEndpointData :: ResourceData where
  "removedEndpointData =
     \<lparr>Id = ''api.example.com'', IsNewResource = False, old = exampleAttrs,
      new = exampleAttrs\<lparr>endpoint_configuration := []\<rparr>\<rparr>"

definition removedMutualTLSData :: ResourceData where
  "removedMutualTLSData =
     \<lparr>Id = ''api.example.com'', IsNewResource = False, old = exampleAttrs,
      new = exampleAttrs\<lparr>mutual_tls_authentication := []\<rparr>\<rparr>"

definition changedTagsData :: ResourceData where
  "changedTagsData =
     \<lparr>Id = ''api.example.com'', IsNewResource = False, old = exampleAttrs,
      new = exampleAttrs\<lparr>tags := [(''env'', ''prod'')], tags_all := [(''env'', ''prod'')]\<rparr>\<rparr>"

section \<open>Theorems\<close>

lemma TrimSuffixPeriod_snoc:
  "TrimSuffixPeriod (s @ ''.'') = s"
  by (simp add: TrimSuffixPeriod_def)

lemma TrimSuffixPeriod_other:
  "s = [] \<or> last s \<noteq> CHR ''.'' \<Longrightarrow> TrimSuffixPeriod s = s"
  by (auto simp add: TrimSuffixPeriod_def)

lemma TestTrimTrailingPeriod_passes:
  "list_all (\<lambda>(input, output). TrimTrailingPeriod input = output) TestTrimTrailingPeriod_cases"
  by (simp add: TestTrimTrailingPeriod_cases_def TrimSuffixPeriod_def)

text \<open>
  C9. \<open>TrimTrailingPeriod\<close> is total. On a string, or on a non-nil pointer to one, it
  removes exactly one trailing period when the string ends in a period and is longer than
  one character, and returns every other string (the one-character string "." among them)
  as it is; on the nil interface, a nil string pointer and a value that is not a string it
  returns the empty string.
\<close>

theorem TrimTrailingPeriod_spec:
  "((v = IString s \<or> v = IStringPtr (Some s)) \<longrightarrow>
      TrimTrailingPeriod v = (if 1 < length s \<and> last s = CHR ''.'' then butlast s else s)) \<and>
   TrimTrailingPeriod (IString ''.'') = ''.'' \<and>
   TrimTrailingPeriod (IStringPtr (Some ''.'')) = ''.'' \<and>
   TrimTrailingPeriod INil = [] \<and>
   TrimTrailingPeriod (IStringPtr None) = [] \<and>
   TrimTrailingPeriod (IInt n) = []"
proof -
  have one: "s = ''.'' \<Longrightarrow> \<not> 1 < length s"
    by simp
  have more: "s \<noteq> ''.'' \<Longrightarrow> s \<noteq> [] \<Longrightarrow> last s = CHR ''.'' \<Longrightarrow> 1 < length s"
    by (cases s rule: rev_cases) auto
  have "(if s = ''.'' then s else TrimSuffixPeriod s) =
        (if 1 < length s \<and> last s = CHR ''.'' then butlast s else s)"
    using one more by (auto simp add: TrimSuffixPeriod_def)
  then show ?thesis
    by auto
qed

theorem TrimTrailingPeriod_spec_witness:
  "TrimTrailingPeriod (IStringPtr (Some ''example.com.'')) = ''example.com'' \<and>
   TrimTrailingPeriod (IString ''a..'') = ''a.''"
  using TrimTrailingPeriod_spec [of "IStringPtr (Some ''example.com.'')" "''example.com.''" 0]
    TrimTrailingPeriod_spec [of "IString ''a..''" "''a..''" 0]
  by simp

text \<open>
  C8. For an API object whose truststore URI and truststore version are both present and
  not empty, flattening and then expanding gives an input object with the same URI and
  the same version. Flattening nil gives nil; expanding the empty list, or a list whose
  first element is nil, gives nil.
\<close>

theorem expand_flatten_MutualTLSAuthentication:
  assumes "TruststoreUri apiObject = Some u" and "u \<noteq> []"
    and "TruststoreVersion apiObject = Some v" and "v \<noteq> []"
  shows "expandMutualTLSAuthentication (flattenMutualTLSAuthentication (Some apiObject)) =
           Some \<lparr>InputTruststoreUri = Some u, InputTruststoreVersion = Some v\<rparr> \<and>
         flattenMutualTLSAuthentication None = [] \<and>
         expandMutualTLSAuthentication [] = None \<and>
         expandMutualTLSAuthentication (None # rest) = None"
  using assms by (simp add: StringValue_def)

theorem expand_flatten_MutualTLSAuthentication_witness:
  "expandMutualTLSAuthentication (flattenMutualTLSAuthentication
      (Some \<lparr>TruststoreUri = Some ''s3://bucket/ca.pem'', TruststoreVersion = Some ''v1'',
             TruststoreWarnings = []\<rparr>)) =
     Some \<lparr>InputTruststoreUri = Some ''s3://bucket/ca.pem'', InputTruststoreVersion = Some ''v1''\<rparr>"
  using expand_flatten_MutualTLSAuthentication
    [of "\<lparr>TruststoreUri = Some ''s3://bucket/ca.pem'', TruststoreVersion = Some ''v1'',
           TruststoreWarnings = []\<rparr>" "''s3://bucket/ca.pem''" "''v1''" "[]"]
  by simp

subsection \<open>The recording service\<close>

lemma recordingClient_calls:
  "CreateDomainNameWithContext (APIGatewayConn recordingClient) input w =
     (createResponse w, w\<lparr>calls := calls w @ [CreateDomainNameCall input]\<rparr>)"
  "GetDomainNameWithContext (APIGatewayConn recordingClient) name w =
     (getResponse w, w\<lparr>calls := calls w @ [GetDomainNameCall name]\<rparr>)"
  "UpdateDomainNameWithContext (APIGatewayConn recordingClient) update w =
     (updateResponse w, w\<lparr>calls := calls w @ [UpdateDomainNameCall update]\<rparr>)"
  "DeleteDomainNameWithContext (APIGatewayConn recordingClient) name w =
     (deleteResponse w, w\<lparr>calls := calls w @ [DeleteDomainNameCall name]\<rparr>)"
  by (simp_all add: recordingClient_def recordingConn_def)

lemma FindDomainName_recording:
  "FindDomainName (APIGatewayConn recordingClient) name w =
     ((case getResponse w of
         (output, err) \<Rightarrow>
           if ErrCodeEquals err ErrCodeNotFoundException then Inl (NotFoundError err)
           else case err of
                  Some e \<Rightarrow> Inl e
                | None \<Rightarrow> (case output of None \<Rightarrow> Inl EmptyResultError | Some out \<Rightarrow> Inr out)),
      w\<lparr>calls := calls w @ [GetDomainNameCall name]\<rparr>)"
  by (simp add: FindDomainName_def recordingClient_calls split: prod.splits option.splits)

subsection \<open>Read\<close>

text \<open>
  C1. On a resource that is not new, when the lookup reports "not found" the read clears
  the resource id and returns no diagnostics; on every other lookup error it returns one
  error diagnostic that names the read and the resource id, and leaves the resource data
  as it was.
\<close>

theorem resourceDomainNameRead_lookup_errors:
  assumes "\<not> IsNewResource (rd s)"
    and "FindDomainName (APIGatewayConn meta) (Id (rd s)) (remote s) = (Inl err, w')"
  shows "(NotFound (Some err) \<longrightarrow>
            resourceDomainNameRead meta s = ([], s\<lparr>remote := w', rd := (rd s)\<lparr>Id := []\<rparr>\<rparr>)) \<and>
         (\<not> NotFound (Some err) \<longrightarrow>
            resourceDomainNameRead meta s =
              ([\<lparr>Severity = SeverityError,
                 Summary = ''reading API Gateway Domain Name ('' @ Id (rd s) @ ''): '' @ Error err\<rparr>],
               s\<lparr>remote := w'\<rparr>))"
  using assms by (simp add: resourceDomainNameRead_def SetId_def AppendErrorf_def)

theorem resourceDomainNameRead_lookup_errors_witness:
  "resourceDomainNameRead recordingClient
      (exampleCall\<lparr>remote := exampleService\<lparr>getResponse := (None, Some notFoundError)\<rparr>\<rparr>) =
     ([], exampleCall
            \<lparr>remote := exampleService\<lparr>getResponse := (None, Some notFoundError),
                                      calls := [GetDomainNameCall ''api.example.com'']\<rparr>,
             rd := (rd exampleCall)\<lparr>Id := []\<rparr>\<rparr>) \<and>
   resourceDomainNameRead recordingClient
      (exampleCall\<lparr>remote := exampleService\<lparr>getResponse := (None, Some throttlingError)\<rparr>\<rparr>) =
     ([\<lparr>Severity = SeverityError,
        Summary = ''reading API Gateway Domain Name (api.example.com): TooManyRequestsException: Too Many Requests''\<rparr>],
      exampleCall
        \<lparr>remote := exampleService\<lparr>getResponse := (None, Some throttlingError),
                                  calls := [GetDomainNameCall ''api.example.com'']\<rparr>\<rparr>)"
proof -
  let ?s1 = "exampleCall\<lparr>remote := exampleService\<lparr>getResponse := (None, Some notFoundError)\<rparr>\<rparr>"
  let ?s2 = "exampleCall\<lparr>remote := exampleService\<lparr>getResponse := (None, Some throttlingError)\<rparr>\<rparr>"
  have old1: "\<not> IsNewResource (rd ?s1)" and old2: "\<not> IsNewResource (rd ?s2)"
    by (simp_all add: exampleCall_def)
  have find1: "FindDomainName (APIGatewayConn recordingClient) (Id (rd ?s1)) (remote ?s1) =
      (Inl (NotFoundError (Some notFoundError)),
       exampleService\<lparr>getResponse := (None, Some notFoundError),
                      calls := [GetDomainNameCall ''api.example.com'']\<rparr>)"
    by (simp add: FindDomainName_recording exampleCall_def exampleService_def notFoundError_def
        ErrCodeEquals_def ErrCodeNotFoundException_def)
  have find2: "FindDomainName (APIGatewayConn recordingClient) (Id (rd ?s2)) (remote ?s2) =
      (Inl throttlingError,
       exampleService\<lparr>getResponse := (None, Some throttlingError),
                      calls := [GetDomainNameCall ''api.example.com'']\<rparr>)"
    by (simp add: FindDomainName_recording exampleCall_def exampleService_def throttlingError_def
        ErrCodeEquals_def ErrCodeNotFoundException_def)
  have nf1: "NotFound (Some (NotFoundError (Some notFoundError)))"
    by (simp add: NotFound_def)
  have nf2: "\<not> NotFound (Some throttlingError)"
    by (simp add: NotFound_def throttlingError_def)
  have id2: "Id (rd ?s2) = ''api.example.com''" and text2: "Error throttlingError = ''TooManyRequestsException: Too Many Requests''"
    by (simp_all add: exampleCall_def throttlingError_def)
  show ?thesis
    using resourceDomainNameRead_lookup_errors [OF old1 find1]
      resourceDomainNameRead_lookup_errors [OF old2 find2] nf1 nf2 id2 text2
    by (simp add: exampleCall_def)
qed

subsection \<open>Delete\<close>

text \<open>
  C2. When the delete call fails with the code NotFoundException the delete returns no
  diagnostics; on every other error of the call it returns one error diagnostic that names
  the delete and the resource id; when the call succeeds it returns no diagnostics.
\<close>

theorem resourceDomainNameDelete_results:
  assumes "DeleteDomainNameWithContext (APIGatewayConn meta) (Id (rd s)) (remote s) = (err, w')"
  shows "(ErrCodeEquals err ErrCodeNotFoundException \<longrightarrow>
            resourceDomainNameDelete meta s = ([], s\<lparr>remote := w'\<rparr>)) \<and>
         (\<not> ErrCodeEquals err ErrCodeNotFoundException \<longrightarrow> err = Some e \<longrightarrow>
            resourceDomainNameDelete meta s =
              ([\<lparr>Severity = SeverityError,
                 Summary = ''deleting API Gateway Domain Name ('' @ Id (rd s) @ ''): '' @ Error e\<rparr>],
               s\<lparr>remote := w'\<rparr>)) \<and>
         (err = None \<longrightarrow> resourceDomainNameDelete meta s = ([], s\<lparr>remote := w'\<rparr>))"
  using assms
  by (auto simp add: resourceDomainNameDelete_def AppendErrorf_def ErrCodeEquals_def Let_def)

theorem resourceDomainNameDelete_results_witness:
  "resourceDomainNameDelete recordingClient
      (exampleCall\<lparr>remote := exampleService\<lparr>deleteResponse := Some notFoundError\<rparr>\<rparr>) =
     ([], exampleCall
            \<lparr>remote := exampleService\<lparr>deleteResponse := Some notFoundError,
                                      calls := [DeleteDomainNameCall ''api.example.com'']\<rparr>\<rparr>) \<and>
   resourceDomainNameDelete recordingClient
      (exampleCall\<lparr>remote := exampleService\<lparr>deleteResponse := Some throttlingError\<rparr>\<rparr>) =
     ([\<lparr>Severity = SeverityError,
        Summary = ''deleting API Gateway Domain Name (api.example.com): TooManyRequestsException: Too Many Requests''\<rparr>],
      exampleCall
        \<lparr>remote := exampleService\<lparr>deleteResponse := Some throttlingError,
                                  calls := [DeleteDomainNameCall ''api.example.com'']\<rparr>\<rparr>) \<and>
   resourceDomainNameDelete recordingClient exampleCall =
     ([], exampleCall\<lparr>remote := exampleService\<lparr>calls := [DeleteDomainNameCall ''api.example.com'']\<rparr>\<rparr>)"
proof -
  let ?s1 = "exampleCall\<lparr>remote := exampleService\<lparr>deleteResponse := Some notFoundError\<rparr>\<rparr>"
  let ?s2 = "exampleCall\<lparr>remote := exampleService\<lparr>deleteResponse := Some throttlingError\<rparr>\<rparr>"
  have call1: "DeleteDomainNameWithContext (APIGatewayConn recordingClient) (Id (rd ?s1)) (remote ?s1) =
      (Some notFoundError,
       exampleService\<lparr>deleteResponse := Some notFoundError,
                      calls := [DeleteDomainNameCall ''api.example.com'']\<rparr>)"
    by (simp add: recordingClient_calls exampleCall_def exampleService_def)
  have call2: "DeleteDomainNameWithContext (APIGatewayConn recordingClient) (Id (rd ?s2)) (remote ?s2) =
      (Some throttlingError,
       exampleService\<lparr>deleteResponse := Some throttlingError,
                      calls := [DeleteDomainNameCall ''api.example.com'']\<rparr>)"
    by (simp add: recordingClient_calls exampleCall_def exampleService_def)
  have call3: "DeleteDomainNameWithContext (APIGatewayConn recordingClient) (Id (rd exampleCall))
        (remote exampleCall) =
      (None, exampleService\<lparr>calls := [DeleteDomainNameCall ''api.example.com'']\<rparr>)"
    by (simp add: recordingClient_calls exampleCall_def exampleService_def)
  have code1: "ErrCodeEquals (Some notFoundError) ErrCodeNotFoundException"
    and code2: "\<not> ErrCodeEquals (Some throttlingError) ErrCodeNotFoundException"
    by (simp_all add: ErrCodeEquals_def ErrCodeNotFoundException_def notFoundError_def
        throttlingError_def)
  have id2: "Id (rd ?s2) = ''api.example.com''"
    and text2: "Error throttlingError = ''TooManyRequestsException: Too Many Requests''"
    by (simp_all add: exampleCall_def throttlingError_def)
  show ?thesis
    using resourceDomainNameDelete_results [OF call1, of throttlingError]
      resourceDomainNameDelete_results [OF call2, of throttlingError]
      resourceDomainNameDelete_results [OF call3, of throttlingError] code1 code2 id2 text2
    by simp
qed

subsection \<open>The status of a domain name\<close>

text \<open>
  C5. The refresh function maps a lookup that reports "not found" to a nil result, the
  empty status and no error; every other lookup error to a nil result with that error;
  and a domain name that was found to the object with its \<open>DomainNameStatus\<close>.
\<close>

theorem statusDomainName_results:
  "(FindDomainName conn domainName w = (Inl err, w') \<longrightarrow> NotFound (Some err) \<longrightarrow>
      statusDomainName conn domainName w = ((None, [], None), w')) \<and>
   (FindDomainName conn domainName w = (Inl err, w') \<longrightarrow> \<not> NotFound (Some err) \<longrightarrow>
      statusDomainName conn domainName w = ((None, [], Some err), w')) \<and>
   (FindDomainName conn domainName w = (Inr output, w') \<longrightarrow>
      statusDomainName conn domainName w =
        ((Some output, StringValue (DomainNameStatus output), None), w'))"
  by (simp add: statusDomainName_def)

theorem statusDomainName_results_witness:
  "statusDomainName recordingConn ''api.example.com''
      (exampleService\<lparr>getResponse := (None, Some notFoundError)\<rparr>) =
     ((None, [], None),
      exampleService\<lparr>getResponse := (None, Some notFoundError),
                     calls := [GetDomainNameCall ''api.example.com'']\<rparr>) \<and>
   statusDomainName recordingConn ''api.example.com''
      (exampleService\<lparr>getResponse := (None, Some throttlingError)\<rparr>) =
     ((None, [], Some throttlingError),
      exampleService\<lparr>getResponse := (None, Some throttlingError),
                     calls := [GetDomainNameCall ''api.example.com'']\<rparr>) \<and>
   statusDomainName recordingConn ''api.example.com'' exampleService =
     ((Some exampleDomainName, ''AVAILABLE'', None),
      exampleService\<lparr>calls := [GetDomainNameCall ''api.example.com'']\<rparr>)"
proof -
  have conn: "recordingConn = APIGatewayConn recordingClient"
    by (simp add: recordingClient_def)
  have find1: "FindDomainName recordingConn ''api.example.com''
        (exampleService\<lparr>getResponse := (None, Some notFoundError)\<rparr>) =
      (Inl (NotFoundError (Some notFoundError)),
       exampleService\<lparr>getResponse := (None, Some notFoundError),
                      calls := [GetDomainNameCall ''api.example.com'']\<rparr>)"
    unfolding conn
    by (simp add: FindDomainName_recording exampleService_def notFoundError_def
        ErrCodeEquals_def ErrCodeNotFoundException_def)
  have find2: "FindDomainName recordingConn ''api.example.com''
        (exampleService\<lparr>getResponse := (None, Some throttlingError)\<rparr>) =
      (Inl throttlingError,
       exampleService\<lparr>getResponse := (None, Some throttlingError),
                      calls := [GetDomainNameCall ''api.example.com'']\<rparr>)"
    unfolding conn
    by (simp add: FindDomainName_recording exampleService_def throttlingError_def
        ErrCodeEquals_def ErrCodeNotFoundException_def)
  have find3: "FindDomainName recordingConn ''api.example.com'' exampleService =
      (Inr exampleDomainName, exampleService\<lparr>calls := [GetDomainNameCall ''api.example.com'']\<rparr>)"
    unfolding conn
    by (simp add: FindDomainName_recording exampleService_def ErrCodeEquals_def)
  have nf1: "NotFound (Some (NotFoundError (Some notFoundError)))"
    and nf2: "\<not> NotFound (Some throttlingError)"
    by (simp_all add: NotFound_def throttlingError_def)
  have status3: "StringValue (DomainNameStatus exampleDomainName) = ''AVAILABLE''"
    by (simp add: StringValue_def exampleDomainName_def)
  show ?thesis
    using statusDomainName_results [of recordingConn "''api.example.com''"
        "exampleService\<lparr>getResponse := (None, Some notFoundError)\<rparr>"
        "NotFoundError (Some notFoundError)" _ exampleDomainName]
      statusDomainName_results [of recordingConn "''api.example.com''"
        "exampleService\<lparr>getResponse := (None, Some throttlingError)\<rparr>"
        throttlingError _ exampleDomainName]
      statusDomainName_results [of recordingConn "''api.example.com''" exampleService
        throttlingError _ exampleDomainName]
      find1 find2 find3 nf1 nf2 status3
    by simp
qed

subsection \<open>Random records in a zone\<close>

lemma TestCleanChangeID_passes:
  "list_all (\<lambda>(input, output). CleanChangeID input = output) TestCleanChangeID_cases"
  by (simp add: TestCleanChangeID_cases_def CleanChangeID_def)

lemma appendRandomChanges_length:
  "appendRandomChanges zone randInt n i changes = Inr result \<Longrightarrow>
     length result = length changes + n"
proof (induction n arbitrary: i changes)
  case 0
  then show ?case by simp
next
  case (Suc n)
  then show ?case
    by (auto split: sum.splits)
qed

lemma recordingRoute53_request:
  "ChangeResourceRecordSets recordingRoute53 req w =
     (changeResponse w, w\<lparr>changeRequests := changeRequests w @ [req]\<rparr>)"
  "WaitForRecordSetToSync recordingRoute53 ident w = (syncResponse w, w)"
  by (simp_all add: recordingRoute53_def)

text \<open>
  C3, as the claim states it, fails: asked for 101 record changes, the helper returns an
  error and sends no request, where the claim has it send the changes in batches of at
  most 100.
\<close>

theorem testAccCreateRandomRecordsInZoneID_101:
  "testAccCreateRandomRecordsInZoneID recordingRoute53 (\<lambda>i. int i) exampleZone 101
      exampleZoneService =
     Inr (Some (ErrorString ''Route53 API only allows 100 record sets in a single batch''),
          exampleZoneService) \<and>
   changeRequests exampleZoneService = []"
  by (simp add: testAccCreateRandomRecordsInZoneID_def exampleZoneService_def)

text \<open>
  C3, amended. Asked for more than 100 record changes, the helper returns the error
  "Route53 API only allows 100 record sets in a single batch" and leaves the remote
  service as it was, whatever the two helpers it would call do: no request is sent. Asked
  for at most 100, whenever it returns it has sent exactly one request, which carries all
  the changes: as many as were asked for, none for a count below one.
\<close>

theorem testAccCreateRandomRecordsInZoneID_limit:
  "(recordsCount > 100 \<longrightarrow>
      testAccCreateRandomRecordsInZoneID conn randInt zone recordsCount w =
        Inr (Some (ErrorString ''Route53 API only allows 100 record sets in a single batch''), w)) \<and>
   (recordsCount \<le> 100 \<longrightarrow>
      testAccCreateRandomRecordsInZoneID recordingRoute53 randInt zone recordsCount v =
        Inr (err, v') \<longrightarrow>
      (\<exists>req batch. changeRequests v' = changeRequests v @ [req] \<and>
          ChangeBatch req = Some batch \<and> length (Changes batch) = nat recordsCount))"
proof (intro conjI impI)
  assume "recordsCount > 100"
  then show "testAccCreateRandomRecordsInZoneID conn randInt zone recordsCount w =
        Inr (Some (ErrorString ''Route53 API only allows 100 record sets in a single batch''), w)"
    by (simp add: testAccCreateRandomRecordsInZoneID_def)
next
  assume le: "recordsCount \<le> 100"
    and run: "testAccCreateRandomRecordsInZoneID recordingRoute53 randInt zone recordsCount v =
        Inr (err, v')"
  from le run obtain changes hz where
    ch: "appendRandomChanges zone randInt (nat recordsCount) 0 [] = Inr changes"
    and hz: "HostedZone zone = Some hz"
    by (auto simp add: testAccCreateRandomRecordsInZoneID_def split: sum.splits option.splits)
  let ?req = "\<lparr>HostedZoneId = ZoneId hz,
                ChangeBatch = Some \<lparr>Comment = Some ''Generated by Terraform'', Changes = changes\<rparr>\<rparr>"
  from le run ch hz have "changeRequests v' = changeRequests v @ [?req]"
    by (auto simp add: testAccCreateRandomRecordsInZoneID_def recordingRoute53_request Let_def
        split: option.splits prod.splits)
  moreover have "length changes = nat recordsCount"
    using appendRandomChanges_length [OF ch] by simp
  ultimately show "\<exists>req batch. changeRequests v' = changeRequests v @ [req] \<and>
          ChangeBatch req = Some batch \<and> length (Changes batch) = nat recordsCount"
    by auto
qed

theorem testAccCreateRandomRecordsInZoneID_limit_witness:
  "testAccCreateRandomRecordsInZoneID recordingRoute53 (\<lambda>i. 7 * int i) exampleZone 250
      exampleZoneService =
     Inr (Some (ErrorString ''Route53 API only allows 100 record sets in a single batch''),
          exampleZoneService) \<and>
   (\<exists>err v'. testAccCreateRandomRecordsInZoneID recordingRoute53 (\<lambda>i. 7 * int i) exampleZone 2
        exampleZoneService = Inr (err, v') \<and>
      (\<exists>req batch. changeRequests v' = [req] \<and> ChangeBatch req = Some batch \<and>
          length (Changes batch) = 2))"
proof -
  have many: "(250::int) > 100" and few: "(2::int) \<le> 100"
    by simp_all
  have "\<exists>err v'. testAccCreateRandomRecordsInZoneID recordingRoute53 (\<lambda>i. 7 * int i) exampleZone 2
        exampleZoneService = Inr (err, v')"
    by (simp add: testAccCreateRandomRecordsInZoneID_def recordingRoute53_request exampleZone_def
        exampleZoneService_def randomChange_def numeral_2_eq_2)
  then obtain err v' where run:
    "testAccCreateRandomRecordsInZoneID recordingRoute53 (\<lambda>i. 7 * int i) exampleZone 2
        exampleZoneService = Inr (err, v')"
    by blast
  have start: "changeRequests exampleZoneService = []"
    by (simp add: exampleZoneService_def)
  from testAccCreateRandomRecordsInZoneID_limit
    [of 2 recordingRoute53 "\<lambda>i. 7 * int i" exampleZone exampleZoneService exampleZoneService err v']
    few run start
  have "\<exists>req batch. changeRequests v' = [req] \<and> ChangeBatch req = Some batch \<and>
          length (Changes batch) = 2"
    by simp
  with run have second: "\<exists>err v'. testAccCreateRandomRecordsInZoneID recordingRoute53
        (\<lambda>i. 7 * int i) exampleZone 2 exampleZoneService = Inr (err, v') \<and>
      (\<exists>req batch. changeRequests v' = [req] \<and> ChangeBatch req = Some batch \<and>
          length (Changes batch) = 2)"
    by blast
  from testAccCreateRandomRecordsInZoneID_limit
    [of 250 recordingRoute53 "\<lambda>i. 7 * int i" exampleZone exampleZoneService exampleZoneService]
    many
  have first: "testAccCreateRandomRecordsInZoneID recordingRoute53 (\<lambda>i. 7 * int i) exampleZone 250
      exampleZoneService =
     Inr (Some (ErrorString ''Route53 API only allows 100 record sets in a single batch''),
          exampleZoneService)"
    by simp
  from first second show ?thesis
    by blast
qed

subsection \<open>Create\<close>






subsection \<open>Update: the patch operations\<close>

lemma operationsAt_append:
  "operationsAt path (xs @ ys) = operationsAt path xs @ operationsAt path ys"
  by (simp add: operationsAt_def)

lemma operationsAt_Nil: "operationsAt path [] = []"
  by (simp add: operationsAt_def)

lemma operationsAt_replaceOperation:
  "operationsAt path (replaceOperation q v # rest) =
     (if q = path then replaceOperation q v # operationsAt path rest else operationsAt path rest)"
  by (simp add: operationsAt_def replaceOperation_def)

lemma operationsAt_stringOperations:
  "operationsAt path (stringOperations d key q) =
     (if q = path \<and> HasChange d key then [replaceOperation q (key (new d))] else [])"
  by (simp add: stringOperations_def operationsAt_replaceOperation operationsAt_Nil Get_def)

lemma endpointConfigurationOperations_Inr:
  assumes "endpointConfigurationOperations d = Inr endpointOps"
  shows "endpointOps =
     (if HasChange d endpoint_configuration_0_types \<and> endpoint_configuration (new d) \<noteq> []
      then [replaceOperation ''/endpointConfiguration/types/0''
              (hd (endpoint_configuration_0_types (new d)))]
      else [])"
  using assms
  by (auto simp add: endpointConfigurationOperations_def GetOk_def
      endpoint_configuration_0_types_def split: if_splits list.splits)

lemma mutualTLSAuthenticationOperations_Inr:
  assumes "mutualTLSAuthenticationOperations d = Inr mutualTLSOps"
  shows "mutualTLSOps =
     (if HasChange d mutual_tls_authentication
      then (case mutual_tls_authentication (new d) of
              Some tfMap # rest \<Rightarrow>
                (if HasChange d mutual_tls_authentication_0_truststore_uri
                 then [replaceOperation ''/mutualTlsAuthentication/truststoreUri''
                         (mutual_tls_authentication_0_truststore_uri (new d))]
                 else []) @
                (if HasChange d mutual_tls_authentication_0_truststore_version
                 then [replaceOperation ''/mutualTlsAuthentication/truststoreVersion''
                         (mutual_tls_authentication_0_truststore_version (new d))]
                 else [])
            | _ \<Rightarrow> [replaceOperation ''/mutualTlsAuthentication/truststoreUri'' []])
      else [])"
  using assms
  by (auto simp add: mutualTLSAuthenticationOperations_def mutualTLSKeyOperations_def GetOk_def
      mutual_tls_authentication_0_truststore_uri_def
      mutual_tls_authentication_0_truststore_version_def StringValue_def
      split: if_splits list.splits option.splits sum.splits)

lemma domainNamePatchOperations_Inr:
  assumes "domainNamePatchOperations d = Inr operations"
  obtains endpointOps mutualTLSOps where
    "endpointConfigurationOperations d = Inr endpointOps"
    "mutualTLSAuthenticationOperations d = Inr mutualTLSOps"
    "operations =
       stringOperations d certificate_arn ''/certificateArn''
       @ stringOperations d certificate_name ''/certificateName''
       @ endpointOps @ mutualTLSOps
       @ stringOperations d regional_certificate_arn ''/regionalCertificateArn''
       @ stringOperations d regional_certificate_name ''/regionalCertificateName''
       @ stringOperations d security_policy ''/securityPolicy''"
  using assms
  by (auto simp add: domainNamePatchOperations_def split: sum.splits)

lemma HasChange_endpoint_configuration:
  "HasChange d endpoint_configuration_0_types \<Longrightarrow> HasChange d endpoint_configuration"
  by (auto simp add: HasChange_def endpoint_configuration_0_types_def)

lemma replaceOperation_fields:
  "Op (replaceOperation path v) = Some OpReplace"
  "Path (replaceOperation path v) = Some path"
  "Value (replaceOperation path v) = Some v"
  by (simp_all add: replaceOperation_def)

lemma stringOperations_fields:
  "operation \<in> set (stringOperations d key path) \<Longrightarrow>
     Op operation = Some OpReplace \<and> Path operation = Some path"
  by (auto simp add: stringOperations_def replaceOperation_fields split: if_splits)

lemma endpointConfigurationOperations_fields:
  "endpointConfigurationOperations d = Inr endpointOps \<Longrightarrow> operation \<in> set endpointOps \<Longrightarrow>
     Op operation = Some OpReplace \<and> Path operation = Some ''/endpointConfiguration/types/0''"
  by (auto simp add: replaceOperation_fields split: if_splits
      dest!: endpointConfigurationOperations_Inr)

lemma mutualTLSAuthenticationOperations_fields:
  "mutualTLSAuthenticationOperations d = Inr mutualTLSOps \<Longrightarrow> operation \<in> set mutualTLSOps \<Longrightarrow>
     Op operation = Some OpReplace \<and>
     (Path operation = Some ''/mutualTlsAuthentication/truststoreUri'' \<or>
      Path operation = Some ''/mutualTlsAuthentication/truststoreVersion'')"
  by (auto simp add: replaceOperation_fields split: if_splits list.splits option.splits
      dest!: mutualTLSAuthenticationOperations_Inr)

lemma domainNamePatchOperations_fields:
  assumes "domainNamePatchOperations d = Inr operations" and "operation \<in> set operations"
  shows "Op operation = Some OpReplace \<and>
         Path operation \<in> Some ` set [''/certificateArn'', ''/certificateName'',
           ''/endpointConfiguration/types/0'', ''/mutualTlsAuthentication/truststoreUri'',
           ''/mutualTlsAuthentication/truststoreVersion'', ''/regionalCertificateArn'',
           ''/regionalCertificateName'', ''/securityPolicy'']"
proof -
  from assms(1) obtain endpointOps mutualTLSOps where
    e: "endpointConfigurationOperations d = Inr endpointOps"
    and m: "mutualTLSAuthenticationOperations d = Inr mutualTLSOps"
    and ops: "operations =
       stringOperations d certificate_arn ''/certificateArn''
       @ stringOperations d certificate_name ''/certificateName''
       @ endpointOps @ mutualTLSOps
       @ stringOperations d regional_certificate_arn ''/regionalCertificateArn''
       @ stringOperations d regional_certificate_name ''/regionalCertificateName''
       @ stringOperations d security_policy ''/securityPolicy''"
    by (rule domainNamePatchOperations_Inr)
  from assms(2) ops consider
      "operation \<in> set (stringOperations d certificate_arn ''/certificateArn'')"
    | "operation \<in> set (stringOperations d certificate_name ''/certificateName'')"
    | "operation \<in> set endpointOps"
    | "operation \<in> set mutualTLSOps"
    | "operation \<in> set (stringOperations d regional_certificate_arn ''/regionalCertificateArn'')"
    | "operation \<in> set (stringOperations d regional_certificate_name ''/regionalCertificateName'')"
    | "operation \<in> set (stringOperations d security_policy ''/securityPolicy'')"
    by auto
  then show ?thesis
  proof cases
    case 1
    from stringOperations_fields [OF this] show ?thesis by simp
  next
    case 2
    from stringOperations_fields [OF this] show ?thesis by simp
  next
    case 3
    from endpointConfigurationOperations_fields [OF e this] show ?thesis by simp
  next
    case 4
    from mutualTLSAuthenticationOperations_fields [OF m this] show ?thesis by auto
  next
    case 5
    from stringOperations_fields [OF this] show ?thesis by simp
  next
    case 6
    from stringOperations_fields [OF this] show ?thesis by simp
  next
    case 7
    from stringOperations_fields [OF this] show ?thesis by simp
  qed
qed

lemma operationsAt_endpointOps:
  "endpointConfigurationOperations d = Inr endpointOps \<Longrightarrow>
     operationsAt path endpointOps =
       (if path = ''/endpointConfiguration/types/0'' then endpointOps else [])"
  by (auto simp add: operationsAt_replaceOperation operationsAt_Nil
      dest!: endpointConfigurationOperations_Inr)

lemma operationsAt_mutualTLSOps_other:
  "mutualTLSAuthenticationOperations d = Inr mutualTLSOps \<Longrightarrow>
     path \<noteq> ''/mutualTlsAuthentication/truststoreUri'' \<Longrightarrow>
     path \<noteq> ''/mutualTlsAuthentication/truststoreVersion'' \<Longrightarrow>
     operationsAt path mutualTLSOps = []"
  by (auto simp add: operationsAt_replaceOperation operationsAt_Nil operationsAt_append
      split: list.splits option.splits
      dest!: mutualTLSAuthenticationOperations_Inr)

lemma operationsAt_mutualTLSOps_uri:
  "mutualTLSAuthenticationOperations d = Inr mutualTLSOps \<Longrightarrow>
     operationsAt ''/mutualTlsAuthentication/truststoreUri'' mutualTLSOps =
       (if HasChange d mutual_tls_authentication
        then (case mutual_tls_authentication (new d) of
                Some tfMap # rest \<Rightarrow>
                  (if HasChange d mutual_tls_authentication_0_truststore_uri
                   then [replaceOperation ''/mutualTlsAuthentication/truststoreUri''
                           (mutual_tls_authentication_0_truststore_uri (new d))]
                   else [])
              | _ \<Rightarrow> [replaceOperation ''/mutualTlsAuthentication/truststoreUri'' []])
        else [])"
  by (auto simp add: operationsAt_replaceOperation operationsAt_Nil operationsAt_append
      split: list.splits option.splits
      dest!: mutualTLSAuthenticationOperations_Inr)

lemma operationsAt_mutualTLSOps_version:
  "mutualTLSAuthenticationOperations d = Inr mutualTLSOps \<Longrightarrow>
     operationsAt ''/mutualTlsAuthentication/truststoreVersion'' mutualTLSOps =
       (if HasChange d mutual_tls_authentication
        then (case mutual_tls_authentication (new d) of
                Some tfMap # rest \<Rightarrow>
                  (if HasChange d mutual_tls_authentication_0_truststore_version
                   then [replaceOperation ''/mutualTlsAuthentication/truststoreVersion''
                           (mutual_tls_authentication_0_truststore_version (new d))]
                   else [])
              | _ \<Rightarrow> [])
        else [])"
  by (auto simp add: operationsAt_replaceOperation operationsAt_Nil operationsAt_append
      split: list.splits option.splits
      dest!: mutualTLSAuthenticationOperations_Inr)

lemma operationsAt_domainNamePatchOperations:
  assumes "domainNamePatchOperations d = Inr operations"
  shows "operationsAt ''/certificateArn'' operations =
           (if HasChange d certificate_arn
            then [replaceOperation ''/certificateArn'' (certificate_arn (new d))] else [])"
    and "operationsAt ''/certificateName'' operations =
           (if HasChange d certificate_name
            then [replaceOperation ''/certificateName'' (certificate_name (new d))] else [])"
    and "operationsAt ''/regionalCertificateArn'' operations =
           (if HasChange d regional_certificate_arn
            then [replaceOperation ''/regionalCertificateArn'' (regional_certificate_arn (new d))]
            else [])"
    and "operationsAt ''/regionalCertificateName'' operations =
           (if HasChange d regional_certificate_name
            then [replaceOperation ''/regionalCertificateName'' (regional_certificate_name (new d))]
            else [])"
    and "operationsAt ''/securityPolicy'' operations =
           (if HasChange d security_policy
            then [replaceOperation ''/securityPolicy'' (security_policy (new d))] else [])"
    and "operationsAt ''/endpointConfiguration/types/0'' operations =
           (if HasChange d endpoint_configuration_0_types \<and> endpoint_configuration (new d) \<noteq> []
            then [replaceOperation ''/endpointConfiguration/types/0''
                    (hd (endpoint_configuration_0_types (new d)))]
            else [])"
    and "operationsAt ''/mutualTlsAuthentication/truststoreUri'' operations =
           (if HasChange d mutual_tls_authentication
            then (case mutual_tls_authentication (new d) of
                    Some tfMap # rest \<Rightarrow>
                      (if HasChange d mutual_tls_authentication_0_truststore_uri
                       then [replaceOperation ''/mutualTlsAuthentication/truststoreUri''
                               (mutual_tls_authentication_0_truststore_uri (new d))]
                       else [])
                  | _ \<Rightarrow> [replaceOperation ''/mutualTlsAuthentication/truststoreUri'' []])
            else [])"
    and "operationsAt ''/mutualTlsAuthentication/truststoreVersion'' operations =
           (if HasChange d mutual_tls_authentication
            then (case mutual_tls_authentication (new d) of
                    Some tfMap # rest \<Rightarrow>
                      (if HasChange d mutual_tls_authentication_0_truststore_version
                       then [replaceOperation ''/mutualTlsAuthentication/truststoreVersion''
                               (mutual_tls_authentication_0_truststore_version (new d))]
                       else [])
                  | _ \<Rightarrow> [])
            else [])"
proof -
  from assms obtain endpointOps mutualTLSOps where
    e: "endpointConfigurationOperations d = Inr endpointOps"
    and m: "mutualTLSAuthenticationOperations d = Inr mutualTLSOps"
    and ops: "operations =
       stringOperations d certificate_arn ''/certificateArn''
       @ stringOperations d certificate_name ''/certificateName''
       @ endpointOps @ mutualTLSOps
       @ stringOperations d regional_certificate_arn ''/regionalCertificateArn''
       @ stringOperations d regional_certificate_name ''/regionalCertificateName''
       @ stringOperations d security_policy ''/securityPolicy''"
    by (rule domainNamePatchOperations_Inr)
  note at = operationsAt_append operationsAt_stringOperations operationsAt_endpointOps [OF e]
  show "operationsAt ''/certificateArn'' operations =
           (if HasChange d certificate_arn
            then [replaceOperation ''/certificateArn'' (certificate_arn (new d))] else [])"
    unfolding ops by (simp add: at operationsAt_mutualTLSOps_other [OF m])
  show "operationsAt ''/certificateName'' operations =
           (if HasChange d certificate_name
            then [replaceOperation ''/certificateName'' (certificate_name (new d))] else [])"
    unfolding ops by (simp add: at operationsAt_mutualTLSOps_other [OF m])
  show "operationsAt ''/regionalCertificateArn'' operations =
           (if HasChange d regional_certificate_arn
            then [replaceOperation ''/regionalCertificateArn'' (regional_certificate_arn (new d))]
            else [])"
    unfolding ops by (simp add: at operationsAt_mutualTLSOps_other [OF m])
  show "operationsAt ''/regionalCertificateName'' operations =
           (if HasChange d regional_certificate_name
            then [replaceOperation ''/regionalCertificateName'' (regional_certificate_name (new d))]
            else [])"
    unfolding ops by (simp add: at operationsAt_mutualTLSOps_other [OF m])
  show "operationsAt ''/securityPolicy'' operations =
           (if HasChange d security_policy
            then [replaceOperation ''/securityPolicy'' (security_policy (new d))] else [])"
    unfolding ops by (simp add: at operationsAt_mutualTLSOps_other [OF m])
  show "operationsAt ''/endpointConfiguration/types/0'' operations =
           (if HasChange d endpoint_configuration_0_types \<and> endpoint_configuration (new d) \<noteq> []
            then [replaceOperation ''/endpointConfiguration/types/0''
                    (hd (endpoint_configuration_0_types (new d)))]
            else [])"
    unfolding ops
    by (simp add: at operationsAt_mutualTLSOps_other [OF m])
      (simp add: endpointConfigurationOperations_Inr [OF e])
  show "operationsAt ''/mutualTlsAuthentication/truststoreUri'' operations =
           (if HasChange d mutual_tls_authentication
            then (case mutual_tls_authentication (new d) of
                    Some tfMap # rest \<Rightarrow>
                      (if HasChange d mutual_tls_authentication_0_truststore_uri
                       then [replaceOperation ''/mutualTlsAuthentication/truststoreUri''
                               (mutual_tls_authentication_0_truststore_uri (new d))]
                       else [])
                  | _ \<Rightarrow> [replaceOperation ''/mutualTlsAuthentication/truststoreUri'' []])
            else [])"
    unfolding ops by (simp add: at operationsAt_mutualTLSOps_uri [OF m])
  show "operationsAt ''/mutualTlsAuthentication/truststoreVersion'' operations =
           (if HasChange d mutual_tls_authentication
            then (case mutual_tls_authentication (new d) of
                    Some tfMap # rest \<Rightarrow>
                      (if HasChange d mutual_tls_authentication_0_truststore_version
                       then [replaceOperation ''/mutualTlsAuthentication/truststoreVersion''
                               (mutual_tls_authentication_0_truststore_version (new d))]
                       else [])
                  | _ \<Rightarrow> [])
            else [])"
    unfolding ops by (simp add: at operationsAt_mutualTLSOps_version [OF m])
qed

lemma applyPatchOperations_steps:
  assumes "UpdateDomainNameWithContext (APIGatewayConn meta)
             \<lparr>UpdateDomainName = Some (Id (rd s)), PatchOperations = operations\<rparr> (remote s) =
           ((output, err), w1)"
  shows "err = Some e \<Longrightarrow>
           applyPatchOperations wait meta s operations =
             ([\<lparr>Severity = SeverityError,
                Summary = ''updating API Gateway Domain Name ('' @ Id (rd s) @ ''): '' @ Error e\<rparr>],
              s\<lparr>remote := w1\<rparr>)"
    and "err = None \<Longrightarrow>
           waitDomainNameUpdated wait (APIGatewayConn meta) (Id (rd s)) w1 = ((waited, Some e), w2) \<Longrightarrow>
           applyPatchOperations wait meta s operations =
             ([\<lparr>Severity = SeverityError,
                Summary = ''waiting for API Gateway Domain Name ('' @ Id (rd s) @ '') update: ''
                          @ Error e\<rparr>],
              s\<lparr>remote := w2\<rparr>)"
    and "err = None \<Longrightarrow>
           waitDomainNameUpdated wait (APIGatewayConn meta) (Id (rd s)) w1 = ((waited, None), w2) \<Longrightarrow>
           applyPatchOperations wait meta s operations =
             resourceDomainNameRead meta (s\<lparr>remote := w2\<rparr>)"
  using assms by (simp_all add: applyPatchOperations_def AppendErrorf_def)

lemma resourceDomainNameUpdate_unchanged:
  "\<not> HasChangesExcept_tags_tags_all (rd s) \<Longrightarrow>
     resourceDomainNameUpdate wait meta s = Inr (resourceDomainNameRead meta s)"
  by (simp add: resourceDomainNameUpdate_def split: prod.splits)

lemma resourceDomainNameUpdate_changed:
  "HasChangesExcept_tags_tags_all (rd s) \<Longrightarrow> domainNamePatchOperations (rd s) = Inr operations \<Longrightarrow>
     resourceDomainNameUpdate wait meta s = Inr (applyPatchOperations wait meta s operations)"
  by (simp add: resourceDomainNameUpdate_def)

lemmas exampleData_defs =
  changedCertificateData_def changedTagsData_def removedEndpointData_def removedMutualTLSData_def
  exampleAttrs_def emptyAttrs_def

lemmas operations_defs =
  domainNamePatchOperations_def stringOperations_def endpointConfigurationOperations_def
  mutualTLSAuthenticationOperations_def mutualTLSKeyOperations_def HasChange_def Get_def GetOk_def
  endpoint_configuration_0_types_def mutual_tls_authentication_0_truststore_uri_def
  mutual_tls_authentication_0_truststore_version_def StringValue_def

text \<open>
  C6, as the claim states it, fails. When \<open>endpoint_configuration\<close> is being removed
  its types have changed, yet no operation is issued; when \<open>mutual_tls_authentication\<close>
  is being removed both of its fields have changed, yet a single operation is issued,
  which empties the truststore URI.
\<close>

theorem resourceDomainNameUpdate_operations_counterexample:
  "HasChange removedEndpointData endpoint_configuration_0_types \<and>
   domainNamePatchOperations removedEndpointData = Inr [] \<and>
   HasChange removedMutualTLSData mutual_tls_authentication_0_truststore_uri \<and>
   HasChange removedMutualTLSData mutual_tls_authentication_0_truststore_version \<and>
   domainNamePatchOperations removedMutualTLSData =
     Inr [replaceOperation ''/mutualTlsAuthentication/truststoreUri'' []]"
  by (simp add: removedEndpointData_def removedMutualTLSData_def exampleAttrs_def emptyAttrs_def
      domainNamePatchOperations_def stringOperations_def endpointConfigurationOperations_def
      mutualTLSAuthenticationOperations_def HasChange_def GetOk_def
      endpoint_configuration_0_types_def mutual_tls_authentication_0_truststore_uri_def
      mutual_tls_authentication_0_truststore_version_def StringValue_def)

text \<open>
  C6, amended. When nothing but \<open>tags\<close> and \<open>tags_all\<close> changed, the update is the
  read alone, whatever the connection and the poller do: no \<open>UpdateDomainName\<close> call
  and no wait. When another attribute changed and the list of operations is built without
  a panic, the update issues the one call with that list, in which every operation is a
  replace on one of eight paths, and which holds: for each of \<open>certificate_arn\<close>,
  \<open>certificate_name\<close>, \<open>regional_certificate_arn\<close>, \<open>regional_certificate_name\<close> and
  \<open>security_policy\<close>, exactly one operation with the new value if the attribute changed,
  else none; for the endpoint types, exactly one if they changed and the new
  \<open>endpoint_configuration\<close> is not empty, else none; for \<open>mutual_tls_authentication\<close>,
  if it changed and the new block is present, exactly one for each of its two keys that
  changed, and if it changed and the new block is absent, exactly one that sets the
  truststore URI to the empty string. When the call and then the wait return no error,
  the update ends with the read.
\<close>

theorem resourceDomainNameUpdate_operations:
  "(\<not> HasChangesExcept_tags_tags_all (rd s) \<longrightarrow>
      resourceDomainNameUpdate wait meta s = Inr (resourceDomainNameRead meta s)) \<and>
   (HasChangesExcept_tags_tags_all (rd s) \<longrightarrow>
    domainNamePatchOperations (rd s) = Inr operations \<longrightarrow>
      resourceDomainNameUpdate wait meta s = Inr (applyPatchOperations wait meta s operations) \<and>
      (\<forall>operation \<in> set operations.
         Op operation = Some OpReplace \<and>
         Path operation \<in> Some ` set [''/certificateArn'', ''/certificateName'',
           ''/endpointConfiguration/types/0'', ''/mutualTlsAuthentication/truststoreUri'',
           ''/mutualTlsAuthentication/truststoreVersion'', ''/regionalCertificateArn'',
           ''/regionalCertificateName'', ''/securityPolicy'']) \<and>
      operationsAt ''/certificateArn'' operations =
        (if HasChange (rd s) certificate_arn
         then [replaceOperation ''/certificateArn'' (certificate_arn (new (rd s)))] else []) \<and>
      operationsAt ''/certificateName'' operations =
        (if HasChange (rd s) certificate_name
         then [replaceOperation ''/certificateName'' (certificate_name (new (rd s)))] else []) \<and>
      operationsAt ''/regionalCertificateArn'' operations =
        (if HasChange (rd s) regional_certificate_arn
         then [replaceOperation ''/regionalCertificateArn'' (regional_certificate_arn (new (rd s)))]
         else []) \<and>
      operationsAt ''/regionalCertificateName'' operations =
        (if HasChange (rd s) regional_certificate_name
         then [replaceOperation ''/regionalCertificateName''
                 (regional_certificate_name (new (rd s)))]
         else []) \<and>
      operationsAt ''/securityPolicy'' operations =
        (if HasChange (rd s) security_policy
         then [replaceOperation ''/securityPolicy'' (security_policy (new (rd s)))] else []) \<and>
      operationsAt ''/endpointConfiguration/types/0'' operations =
        (if HasChange (rd s) endpoint_configuration_0_types \<and>
            endpoint_configuration (new (rd s)) \<noteq> []
         then [replaceOperation ''/endpointConfiguration/types/0''
                 (hd (endpoint_configuration_0_types (new (rd s))))]
         else []) \<and>
      operationsAt ''/mutualTlsAuthentication/truststoreUri'' operations =
        (if HasChange (rd s) mutual_tls_authentication
         then (case mutual_tls_authentication (new (rd s)) of
                 Some tfMap # rest \<Rightarrow>
                   (if HasChange (rd s) mutual_tls_authentication_0_truststore_uri
                    then [replaceOperation ''/mutualTlsAuthentication/truststoreUri''
                            (mutual_tls_authentication_0_truststore_uri (new (rd s)))]
                    else [])
               | _ \<Rightarrow> [replaceOperation ''/mutualTlsAuthentication/truststoreUri'' []])
         else []) \<and>
      operationsAt ''/mutualTlsAuthentication/truststoreVersion'' operations =
        (if HasChange (rd s) mutual_tls_authentication
         then (case mutual_tls_authentication (new (rd s)) of
                 Some tfMap # rest \<Rightarrow>
                   (if HasChange (rd s) mutual_tls_authentication_0_truststore_version
                    then [replaceOperation ''/mutualTlsAuthentication/truststoreVersion''
                            (mutual_tls_authentication_0_truststore_version (new (rd s)))]
                    else [])
               | _ \<Rightarrow> [])
         else []) \<and>
      (UpdateDomainNameWithContext (APIGatewayConn meta)
          \<lparr>UpdateDomainName = Some (Id (rd s)), PatchOperations = operations\<rparr> (remote s) =
          ((output, None), w1) \<longrightarrow>
       waitDomainNameUpdated wait (APIGatewayConn meta) (Id (rd s)) w1 = ((waited, None), w2) \<longrightarrow>
         resourceDomainNameUpdate wait meta s =
           Inr (resourceDomainNameRead meta (s\<lparr>remote := w2\<rparr>))))"
proof (intro conjI impI ballI)
  assume "\<not> HasChangesExcept_tags_tags_all (rd s)"
  then show "resourceDomainNameUpdate wait meta s = Inr (resourceDomainNameRead meta s)"
    by (rule resourceDomainNameUpdate_unchanged)
next
  assume changed: "HasChangesExcept_tags_tags_all (rd s)"
    and ops: "domainNamePatchOperations (rd s) = Inr operations"
  show run: "resourceDomainNameUpdate wait meta s =
      Inr (applyPatchOperations wait meta s operations)"
    using changed ops by (rule resourceDomainNameUpdate_changed)
  {
    assume "UpdateDomainNameWithContext (APIGatewayConn meta)
          \<lparr>UpdateDomainName = Some (Id (rd s)), PatchOperations = operations\<rparr> (remote s) =
          ((output, None), w1)"
      and "waitDomainNameUpdated wait (APIGatewayConn meta) (Id (rd s)) w1 = ((waited, None), w2)"
    then show "resourceDomainNameUpdate wait meta s =
        Inr (resourceDomainNameRead meta (s\<lparr>remote := w2\<rparr>))"
      using run applyPatchOperations_steps(3) by fastforce
  }
  {
    fix operation
    assume "operation \<in> set operations"
    with ops show "Op operation = Some OpReplace"
      and "Path operation \<in> Some ` set [''/certificateArn'', ''/certificateName'',
           ''/endpointConfiguration/types/0'', ''/mutualTlsAuthentication/truststoreUri'',
           ''/mutualTlsAuthentication/truststoreVersion'', ''/regionalCertificateArn'',
           ''/regionalCertificateName'', ''/securityPolicy'']"
      using domainNamePatchOperations_fields by blast+
  }
qed (rule operationsAt_domainNamePatchOperations, assumption)+

theorem resourceDomainNameUpdate_operations_witness:
  "\<not> HasChangesExcept_tags_tags_all changedTagsData \<and>
   resourceDomainNameUpdate refreshOnce recordingClient (exampleCall\<lparr>rd := changedTagsData\<rparr>) =
     Inr (resourceDomainNameRead recordingClient (exampleCall\<lparr>rd := changedTagsData\<rparr>)) \<and>
   HasChangesExcept_tags_tags_all changedCertificateData \<and>
   domainNamePatchOperations changedCertificateData =
     Inr [replaceOperation ''/regionalCertificateArn''
            ''arn:aws:acm:us-east-1:123456789012:certificate/def'',
          replaceOperation ''/securityPolicy'' ''TLS_1_2''] \<and>
   resourceDomainNameUpdate refreshOnce recordingClient
      (exampleCall\<lparr>rd := changedCertificateData\<rparr>) =
     Inr (applyPatchOperations refreshOnce recordingClient
            (exampleCall\<lparr>rd := changedCertificateData\<rparr>)
            [replaceOperation ''/regionalCertificateArn''
               ''arn:aws:acm:us-east-1:123456789012:certificate/def'',
             replaceOperation ''/securityPolicy'' ''TLS_1_2''])"
proof -
  have tags: "\<not> HasChangesExcept_tags_tags_all (rd (exampleCall\<lparr>rd := changedTagsData\<rparr>))"
    by (simp add: HasChangesExcept_tags_tags_all_def HasChange_def exampleData_defs)
  have changed: "HasChangesExcept_tags_tags_all (rd (exampleCall\<lparr>rd := changedCertificateData\<rparr>))"
    by (simp add: HasChangesExcept_tags_tags_all_def HasChange_def exampleData_defs)
  have ops: "domainNamePatchOperations (rd (exampleCall\<lparr>rd := changedCertificateData\<rparr>)) =
     Inr [replaceOperation ''/regionalCertificateArn''
            ''arn:aws:acm:us-east-1:123456789012:certificate/def'',
          replaceOperation ''/securityPolicy'' ''TLS_1_2'']"
    by (simp add: operations_defs exampleData_defs)
  note unchanged = resourceDomainNameUpdate_operations
    [of "exampleCall\<lparr>rd := changedTagsData\<rparr>" refreshOnce recordingClient,
      THEN conjunct1, rule_format, OF tags]
  note sent = resourceDomainNameUpdate_operations
    [of "exampleCall\<lparr>rd := changedCertificateData\<rparr>" refreshOnce recordingClient,
      THEN conjunct2, rule_format, OF changed ops, THEN conjunct1]
  have data: "rd (exampleCall\<lparr>rd := changedTagsData\<rparr>) = changedTagsData"
    "rd (exampleCall\<lparr>rd := changedCertificateData\<rparr>) = changedCertificateData"
    by simp_all
  from tags changed ops unchanged sent show ?thesis
    unfolding data by blast
qed

text \<open>
  C10. When the endpoint types changed and the new \<open>endpoint_configuration\<close> list is
  empty, the update (which takes place, since an attribute other than the tags changed)
  appends nothing for the endpoint configuration: the list of operations it sends holds
  no operation on the endpoint type.
\<close>

theorem resourceDomainNameUpdate_endpoint_removed:
  assumes "HasChange (rd s) endpoint_configuration_0_types"
    and "endpoint_configuration (new (rd s)) = []"
  shows "HasChangesExcept_tags_tags_all (rd s) \<and>
         endpointConfigurationOperations (rd s) = Inr [] \<and>
         (domainNamePatchOperations (rd s) = Inr operations \<longrightarrow>
            operationsAt ''/endpointConfiguration/types/0'' operations = [] \<and>
            resourceDomainNameUpdate wait meta s =
              Inr (applyPatchOperations wait meta s operations))"
proof -
  have changed: "HasChangesExcept_tags_tags_all (rd s)"
    using HasChange_endpoint_configuration [OF assms(1)]
    by (simp add: HasChangesExcept_tags_tags_all_def)
  have none: "endpointConfigurationOperations (rd s) = Inr []"
    using assms by (simp add: endpointConfigurationOperations_def GetOk_def)
  have "operationsAt ''/endpointConfiguration/types/0'' operations = []"
    if "domainNamePatchOperations (rd s) = Inr operations"
    using operationsAt_domainNamePatchOperations(6) [OF that] assms(2) by simp
  with changed none show ?thesis
    by (simp add: resourceDomainNameUpdate_changed)
qed

theorem resourceDomainNameUpdate_endpoint_removed_witness:
  "HasChange removedEndpointData endpoint_configuration_0_types \<and>
   endpoint_configuration (new removedEndpointData) = [] \<and>
   resourceDomainNameUpdate refreshOnce recordingClient (exampleCall\<lparr>rd := removedEndpointData\<rparr>) =
     Inr (applyPatchOperations refreshOnce recordingClient
            (exampleCall\<lparr>rd := removedEndpointData\<rparr>) []) \<and>
   calls (remote (snd (applyPatchOperations refreshOnce recordingClient
            (exampleCall\<lparr>rd := removedEndpointData\<rparr>) []))) =
     [UpdateDomainNameCall \<lparr>UpdateDomainName = Some ''api.example.com'', PatchOperations = []\<rparr>,
      GetDomainNameCall ''api.example.com'', GetDomainNameCall ''api.example.com'']"
proof -
  have h1: "HasChange (rd (exampleCall\<lparr>rd := removedEndpointData\<rparr>)) endpoint_configuration_0_types"
    by (simp add: HasChange_def endpoint_configuration_0_types_def exampleData_defs)
  have h2: "endpoint_configuration (new (rd (exampleCall\<lparr>rd := removedEndpointData\<rparr>))) = []"
    by (simp add: exampleData_defs)
  have ops: "domainNamePatchOperations (rd (exampleCall\<lparr>rd := removedEndpointData\<rparr>)) = Inr []"
    by (simp add: operations_defs exampleData_defs)
  have log: "calls (remote (snd (applyPatchOperations refreshOnce recordingClient
            (exampleCall\<lparr>rd := removedEndpointData\<rparr>) []))) =
     [UpdateDomainNameCall \<lparr>UpdateDomainName = Some ''api.example.com'', PatchOperations = []\<rparr>,
      GetDomainNameCall ''api.example.com'', GetDomainNameCall ''api.example.com'']"
    by (simp add: applyPatchOperations_def recordingClient_calls waitDomainNameUpdated_def
        refreshOnce_def domainNameUpdatedStateConf_def statusDomainName_def
        FindDomainName_recording resourceDomainNameRead_def ErrCodeEquals_def
        Set_endpoint_configuration_def Set_mutual_tls_authentication_def
        exampleCall_def exampleService_def removedEndpointData_def)
  note sent = resourceDomainNameUpdate_endpoint_removed
    [OF h1 h2, of "[]" refreshOnce recordingClient, THEN conjunct2, THEN conjunct2, rule_format,
      OF ops, THEN conjunct2]
  have data: "rd (exampleCall\<lparr>rd := removedEndpointData\<rparr>) = removedEndpointData"
    by simp
  from h1 h2 sent log show ?thesis
    unfolding data by blast
qed

subsection \<open>Update: the configuration of the wait\<close>

text \<open>
  The configuration \<open>waitDomainNameUpdated\<close> hands to the poller: pending while
  UPDATING, target AVAILABLE, a timeout of 15 minutes, a delay of one minute and a minimum
  timeout of 10 seconds, in nanoseconds. What the poller does with it is not in the
  source.
\<close>

lemma domainNameUpdatedStateConf_values:
  "Pending (domainNameUpdatedStateConf conn domainName) = [''UPDATING'']"
  "Target (domainNameUpdatedStateConf conn domainName) = [''AVAILABLE'']"
  "Refresh (domainNameUpdatedStateConf conn domainName) = statusDomainName conn domainName"
  "Timeout (domainNameUpdatedStateConf conn domainName) = 900000000000"
  "Delay (domainNameUpdatedStateConf conn domainName) = 60000000000"
  "MinTimeout (domainNameUpdatedStateConf conn domainName) = 10000000000"
  by (simp_all add: domainNameUpdatedStateConf_def DomainNameStatusUpdating_def
      DomainNameStatusAvailable_def Minute_def Second_def)

lemma waitDomainNameUpdated_result:
  "WaitForStateContext (domainNameUpdatedStateConf conn domainName) w = ((Some output, None), w') \<Longrightarrow>
     waitDomainNameUpdated WaitForStateContext conn domainName w = ((Some output, None), w')"
  "WaitForStateContext (domainNameUpdatedStateConf conn domainName) w = ((None, err), w') \<Longrightarrow>
     waitDomainNameUpdated WaitForStateContext conn domainName w = ((None, err), w')"
  by (simp_all add: waitDomainNameUpdated_def)

end
